theory Spec2Isabelle
  imports Complex_Main "HOL-Library.Sublist" "HOL-Library.List_Lexorder" "HOL-Library.Char_ord"
begin

section \<open>Strings, paths and JSON values\<close>

text \<open>
  The program is \<^verbatim>\<open>AudioREV.py\<close> (the current revision) together with the older
  revision \<^verbatim>\<open>.old/AudioREV1_1.py\<close>. Python strings are modelled as \<^typ>\<open>string\<close>.
  The two file names are the module-level constants of the source.
\<close>

definition PATHS_FILENAME :: string where
  "PATHS_FILENAME = ''paths.jsonl''"

definition SCORES_FILENAME :: string where
  "SCORES_FILENAME = ''scores.jsonl''"

definition NL :: char where
  "NL = CHR 0x0A"

text \<open>
  \<^verbatim>\<open>os.path.join(a, b)\<close> on a POSIX system: an absolute second component replaces the
  first one, and a separator is inserted unless the first component is empty or already
  ends with one.
\<close>

definition path_join :: "string \<Rightarrow> string \<Rightarrow> string" where
  "path_join a b =
     (if b \<noteq> [] \<and> hd b = CHR ''/'' then b
      else if a = [] \<or> last a = CHR ''/'' then a @ b
      else a @ ''/'' @ b)"

text \<open>
  A Python float as the code meets it: a finite number or one of the two infinities that
  \<^verbatim>\<open>sort_key\<close> itself uses as sentinels. NaN is outside the model. Integers of JSON
  are read through their numeric value.
\<close>

datatype pyfloat = NegInf | Fin real | PosInf

text \<open>What \<^verbatim>\<open>json.loads\<close> can return: any JSON value, a dict being an association list.\<close>

datatype jval =
    JNull
  | JBool bool
  | JNum pyfloat
  | JStr string
  | JArr "jval list"
  | JObj "(string \<times> jval) list"

text \<open>Python truthiness, as used by \<^verbatim>\<open>if not full_path_str\<close>.\<close>

fun truthy :: "jval \<Rightarrow> bool" where
  "truthy JNull = False"
| "truthy (JBool b) = b"
| "truthy (JNum x) = (x \<noteq> Fin 0)"
| "truthy (JStr s) = (s \<noteq> [])"
| "truthy (JArr xs) = (xs \<noteq> [])"
| "truthy (JObj kv) = (kv \<noteq> [])"

text \<open>\<^verbatim>\<open>d.get(k)\<close> and \<^verbatim>\<open>d.get(k, None)\<close>: the value, or \<^verbatim>\<open>None\<close> for a missing key.\<close>

definition dict_get :: "(string \<times> jval) list \<Rightarrow> string \<Rightarrow> jval" where
  "dict_get d k = (case map_of d k of None \<Rightarrow> JNull | Some v \<Rightarrow> v)"

text \<open>
  The library functions whose results the program only passes on are parameters of the
  model: every theorem holds for any behaviour of the JSON codec, of \<^verbatim>\<open>pathlib\<close> and of
  \<^verbatim>\<open>float()\<close> and \<^verbatim>\<open>str()\<close>. \<open>json_loads\<close> returns \<open>None\<close> where Python raises
  \<^verbatim>\<open>JSONDecodeError\<close>; \<open>float_of_str\<close> returns \<open>None\<close> where \<^verbatim>\<open>float(s)\<close> raises
  \<^verbatim>\<open>ValueError\<close>.
\<close>

record pylib =
  json_loads :: "string \<Rightarrow> jval option"
  json_dumps :: "jval \<Rightarrow> string"
  Path_str :: "string \<Rightarrow> string"
  Path_name :: "string \<Rightarrow> string"
  abspath :: "string \<Rightarrow> string"
  as_posix :: "string \<Rightarrow> string"
  float_of_str :: "string \<Rightarrow> pyfloat option"
  py_str :: "jval \<Rightarrow> string"

section \<open>The file system\<close>

text \<open>
  A file system maps a path to a regular file with its text or to a directory with its
  listing. Permissions, symbolic links and decoding errors are outside the model.
\<close>

datatype node = File string | Dir "string list"

type_synonym fs = "string \<Rightarrow> node option"

definition isdir :: "fs \<Rightarrow> string \<Rightarrow> bool" where
  "isdir fs p = (case fs p of Some (Dir _) \<Rightarrow> True | _ \<Rightarrow> False)"

definition is_file :: "fs \<Rightarrow> string \<Rightarrow> bool" where
  "is_file fs p = (case fs p of Some (File _) \<Rightarrow> True | _ \<Rightarrow> False)"

definition path_exists :: "fs \<Rightarrow> string \<Rightarrow> bool" where
  "path_exists fs p = (fs p \<noteq> None)"

text \<open>
  Iterating over an open text file yields its lines, each with its terminator; a last
  line without terminator is yielded as it is. Lines end with a line feed, as in the
  files this program writes.
\<close>

fun py_lines :: "string \<Rightarrow> string list" where
  "py_lines [] = []"
| "py_lines (c # cs) =
     (if c = NL then [c] # py_lines cs
      else (case py_lines cs of [] \<Rightarrow> [[c]] | l # ls \<Rightarrow> (c # l) # ls))"

section \<open>Score Store Reader: \<^verbatim>\<open>load_audio_data\<close>\<close>

record entry =
  filename :: string
  path :: string
  CE :: jval
  CU :: jval
  PC :: jval
  PQ :: jval

text \<open>
  The loop over the lines of \<^verbatim>\<open>paths.jsonl\<close> (lines 60-66): a line that does not parse
  is skipped and counted. The accumulator is \<open>(paths_content, invalid_entries_count)\<close>.
\<close>

fun read_paths_lines :: "pylib \<Rightarrow> string list \<Rightarrow> jval list \<times> nat \<Rightarrow> jval list \<times> nat" where
  "read_paths_lines lib [] acc = acc"
| "read_paths_lines lib (line # rest) (paths_content, invalid) =
     (case json_loads lib line of
        Some v \<Rightarrow> read_paths_lines lib rest (paths_content @ [v], invalid)
      | None \<Rightarrow> read_paths_lines lib rest (paths_content, invalid + 1))"

text \<open>
  The loop over the lines of \<^verbatim>\<open>scores.jsonl\<close> (lines 68-75): a line that does not parse
  is skipped; the increment of the counter is commented out in the source.
\<close>

fun read_scores_lines :: "pylib \<Rightarrow> string list \<Rightarrow> jval list \<Rightarrow> jval list" where
  "read_scores_lines lib [] scores_content = scores_content"
| "read_scores_lines lib (line # rest) scores_content =
     (case json_loads lib line of
        Some v \<Rightarrow> read_scores_lines lib rest (scores_content @ [v])
      | None \<Rightarrow> read_scores_lines lib rest scores_content)"

text \<open>
  One iteration of the merge loop (lines 81-105). \<^verbatim>\<open>path_data.get\<close> raises
  \<^verbatim>\<open>AttributeError\<close> unless \<^verbatim>\<open>path_data\<close> is a dict, \<^verbatim>\<open>Path(x)\<close> raises
  \<^verbatim>\<open>TypeError\<close> unless \<^verbatim>\<open>x\<close> is a string, and \<^verbatim>\<open>score_data.get\<close> is reached only
  after the file check.
\<close>

datatype merge_step = Skip_entry | Append_entry entry | Raise_exception

definition merge_pair :: "pylib \<Rightarrow> fs \<Rightarrow> jval \<times> jval \<Rightarrow> merge_step" where
  "merge_pair lib fs pr =
     (case fst pr of
        JObj path_data \<Rightarrow>
          (let full_path_str = dict_get path_data ''path'' in
           if \<not> truthy full_path_str then Skip_entry
           else (case full_path_str of
                   JStr s \<Rightarrow>
                     (let full_path = Path_str lib s in
                      if \<not> is_file fs full_path then Skip_entry
                      else (case snd pr of
                              JObj score_data \<Rightarrow>
                                Append_entry
                                  \<lparr>filename = Path_name lib s, path = full_path,
                                   CE = dict_get score_data ''CE'',
                                   CU = dict_get score_data ''CU'',
                                   PC = dict_get score_data ''PC'',
                                   PQ = dict_get score_data ''PQ''\<rparr>
                            | _ \<Rightarrow> Raise_exception))
                 | _ \<Rightarrow> Raise_exception))
      | _ \<Rightarrow> Raise_exception)"

text \<open>
  An exception leaves the list and the counter as they are at that moment, so the result
  of a block that can raise carries the state in both cases.
\<close>

datatype 'a outcome = Raised 'a | Done 'a

fun merge_entries ::
  "pylib \<Rightarrow> fs \<Rightarrow> (jval \<times> jval) list \<Rightarrow> entry list \<times> nat \<Rightarrow> (entry list \<times> nat) outcome" where
  "merge_entries lib fs [] acc = Done acc"
| "merge_entries lib fs (pr # rest) (all_data, invalid) =
     (case merge_pair lib fs pr of
        Skip_entry \<Rightarrow> merge_entries lib fs rest (all_data, invalid + 1)
      | Append_entry e \<Rightarrow> merge_entries lib fs rest (all_data @ [e], invalid)
      | Raise_exception \<Rightarrow> Raised (all_data, invalid))"

text \<open>
  The body of the \<^verbatim>\<open>try\<close> block (lines 56-105) for one subdirectory. Opening a
  directory for reading raises; both paths exist when the block is entered.
\<close>

definition try_subdir ::
  "pylib \<Rightarrow> fs \<Rightarrow> string \<Rightarrow> string \<Rightarrow> entry list \<times> nat \<Rightarrow> (entry list \<times> nat) outcome" where
  "try_subdir lib fs paths_file scores_file acc =
     (case fs paths_file of
        Some (File ptext) \<Rightarrow>
          (let pc = read_paths_lines lib (py_lines ptext) ([], snd acc) in
           case fs scores_file of
             Some (File stext) \<Rightarrow>
               (let scores_content = read_scores_lines lib (py_lines stext) [] in
                if length (fst pc) \<noteq> length scores_content then Done (fst acc, snd pc)
                else merge_entries lib fs (zip (fst pc) scores_content) (fst acc, snd pc))
           | _ \<Rightarrow> Raised (fst acc, snd pc))
      | _ \<Rightarrow> Raised acc)"

record lstate =
  all_data :: "entry list"
  found_files_flag :: bool
  subdirs_scanned :: nat
  invalid_entries_count :: nat

definition process_item :: "pylib \<Rightarrow> fs \<Rightarrow> string \<Rightarrow> string \<Rightarrow> lstate \<Rightarrow> lstate" where
  "process_item lib fs base_dir item st =
     (let subdir_path = path_join base_dir item in
      if isdir fs subdir_path then
        (let st1 = st\<lparr>subdirs_scanned := subdirs_scanned st + 1\<rparr>;
             paths_file = path_join subdir_path PATHS_FILENAME;
             scores_file = path_join subdir_path SCORES_FILENAME
         in if path_exists fs paths_file \<and> path_exists fs scores_file then
              (case try_subdir lib fs paths_file scores_file
                      (all_data st1, invalid_entries_count st1) of
                 Done acc \<Rightarrow>
                   st1\<lparr>found_files_flag := True, all_data := fst acc,
                       invalid_entries_count := snd acc\<rparr>
               | Raised acc \<Rightarrow>
                   st1\<lparr>found_files_flag := True, all_data := fst acc,
                       invalid_entries_count := snd acc + 1\<rparr>)
            else st1)
      else st)"

fun load_loop :: "pylib \<Rightarrow> fs \<Rightarrow> string \<Rightarrow> string list \<Rightarrow> lstate \<Rightarrow> lstate" where
  "load_loop lib fs base_dir [] st = st"
| "load_loop lib fs base_dir (item # items) st =
     load_loop lib fs base_dir items (process_item lib fs base_dir item st)"

definition load_init :: lstate where
  "load_init = \<lparr>all_data = [], found_files_flag = False, subdirs_scanned = 0,
                invalid_entries_count = 0\<rparr>"

text \<open>
  The result of \<^verbatim>\<open>load_audio_data\<close>: the returned triple, and the number of invalid
  entries that the function prints.
\<close>

record load_result =
  loaded :: "entry list"
  error_msg :: "string option"
  subdir_count :: nat
  printed_invalid :: nat

definition load_audio_data :: "pylib \<Rightarrow> fs \<Rightarrow> string \<Rightarrow> load_result" where
  "load_audio_data lib fs base_dir =
     (case fs base_dir of
        Some (Dir listing) \<Rightarrow>
          (if base_dir = [] then
             \<lparr>loaded = [], error_msg = Some ''Selected path is not a valid directory.'',
              subdir_count = 0, printed_invalid = 0\<rparr>
           else
             (let st = load_loop lib fs base_dir listing load_init in
              if \<not> found_files_flag st \<and> all_data st = [] then
                \<lparr>loaded = [],
                 error_msg = Some (''No subdirectories with '' @ [CHR 0x27] @ PATHS_FILENAME
                   @ [CHR 0x27] @ '' and '' @ [CHR 0x27] @ SCORES_FILENAME @ [CHR 0x27]
                   @ '' found or processed in '' @ base_dir @ ''.''),
                 subdir_count = subdirs_scanned st,
                 printed_invalid = invalid_entries_count st\<rparr>
              else if all_data st = [] \<and> found_files_flag st then
                \<lparr>loaded = [],
                 error_msg = Some (''Found subdirectories with jsonl files, but failed to ''
                   @ ''load any valid audio entries (check paths and file existence).''),
                 subdir_count = subdirs_scanned st,
                 printed_invalid = invalid_entries_count st\<rparr>
              else
                \<lparr>loaded = all_data st, error_msg = None,
                 subdir_count = subdirs_scanned st,
                 printed_invalid = invalid_entries_count st\<rparr>))
      | _ \<Rightarrow>
          \<lparr>loaded = [], error_msg = Some ''Selected path is not a valid directory.'',
           subdir_count = 0, printed_invalid = 0\<rparr>)"

text \<open>Helpers for stating the properties of the reader.\<close>

definition valid_lines :: "pylib \<Rightarrow> string \<Rightarrow> jval list" where
  "valid_lines lib text = List.map_filter (json_loads lib) (py_lines text)"

definition invalid_lines :: "pylib \<Rightarrow> string \<Rightarrow> string list" where
  "invalid_lines lib text = filter (\<lambda>l. json_loads lib l = None) (py_lines text)"

fun outcome_state :: "'a outcome \<Rightarrow> 'a" where
  "outcome_state (Raised s) = s"
| "outcome_state (Done s) = s"


subsection \<open>A concrete library and concrete directories\<close>

text \<open>
  A small instance of the library parameters, used to run the model on concrete
  directories: the JSON reader knows the lines below and rejects every other line.
\<close>

definition demo_table :: "(string \<times> jval) list" where
  \<open>demo_table =
     [(''{"path": "/b/d/a.wav"}'', JObj [(''path'', JStr ''/b/d/a.wav'')]),
      (''{"path": "/b/d/gone.wav"}'', JObj [(''path'', JStr ''/b/d/gone.wav'')]),
      (''{"path": "/b/e/c.wav"}'', JObj [(''path'', JStr ''/b/e/c.wav'')]),
      (''{"CE": 5.5, "PQ": 7}'', JObj [(''CE'', JNum (Fin 5.5)), (''PQ'', JNum (Fin 7))]),
      (''{}'', JObj []),
      (''[1]'', JArr [JNum (Fin 1)])]\<close>

definition demo_loads :: "string \<Rightarrow> jval option" where
  "demo_loads line = map_of demo_table (filter (\<lambda>c. c \<noteq> NL) line)"

definition demo_dumps :: "jval \<Rightarrow> string" where
  \<open>demo_dumps v =
     (case v of
        JObj [(k, JStr s)] \<Rightarrow> ''{"'' @ k @ ''": "'' @ s @ ''"}''
      | _ \<Rightarrow> ''null'')\<close>

definition demo_name :: "string \<Rightarrow> string" where
  "demo_name s = rev (takeWhile (\<lambda>c. c \<noteq> CHR ''/'') (rev s))"

definition demo_lib :: pylib where
  "demo_lib =
     \<lparr>json_loads = demo_loads, json_dumps = demo_dumps,
      Path_str = (\<lambda>s. s), Path_name = demo_name,
      abspath = (\<lambda>s. s), as_posix = (\<lambda>s. s),
      float_of_str = (\<lambda>s. None),
      py_str = (\<lambda>v. case v of JStr s \<Rightarrow> s | _ \<Rightarrow> [])\<rparr>"

definition line_a :: string where
  \<open>line_a = ''{"path": "/b/d/a.wav"}'' @ [NL]\<close>

definition line_gone :: string where
  \<open>line_gone = ''{"path": "/b/d/gone.wav"}'' @ [NL]\<close>

definition line_c :: string where
  \<open>line_c = ''{"path": "/b/e/c.wav"}'' @ [NL]\<close>

definition line_scores :: string where
  \<open>line_scores = ''{"CE": 5.5, "PQ": 7}'' @ [NL]\<close>

definition line_empty_obj :: string where
  "line_empty_obj = ''{}'' @ [NL]"


definition line_bad :: string where
  "line_bad = ''oops'' @ [NL]"



text \<open>A scores file with a line that is not JSON, beside a manifest of one valid line.\<close>

definition fs_bad_score :: fs where
  "fs_bad_score = map_of
     [(''/b'', Dir [''d'']),
      (''/b/d'', Dir [''a.wav'', ''paths.jsonl'', ''scores.jsonl'']),
      (''/b/d/a.wav'', File ''RIFF''),
      (''/b/d/paths.jsonl'', File line_a),
      (''/b/d/scores.jsonl'', File (line_bad @ line_scores))]"

text \<open>
  Two subdirectories: \<^verbatim>\<open>d\<close> has two manifest lines and one score line, \<^verbatim>\<open>e\<close> has one
  of each.
\<close>

definition fs_mismatch :: fs where
  "fs_mismatch = map_of
     [(''/b'', Dir [''d'', ''e'']),
      (''/b/d'', Dir [''a.wav'', ''paths.jsonl'', ''scores.jsonl'']),
      (''/b/d/a.wav'', File ''RIFF''),
      (''/b/d/paths.jsonl'', File (line_a @ line_gone)),
      (''/b/d/scores.jsonl'', File line_scores),
      (''/b/e'', Dir [''c.wav'', ''paths.jsonl'', ''scores.jsonl'']),
      (''/b/e/c.wav'', File ''RIFF''),
      (''/b/e/paths.jsonl'', File line_c),
      (''/b/e/scores.jsonl'', File line_empty_obj)]"

section \<open>More of Python's strings\<close>

text \<open>
  \<^verbatim>\<open>str.lower\<close> on ASCII letters; the program uses it to match the suffix \<^verbatim>\<open>.wav\<close> and to
  build case-insensitive sort keys.
\<close>

definition lower_char :: "char \<Rightarrow> char" where
  "lower_char c =
     (if CHR ''A'' \<le> c \<and> c \<le> CHR ''Z'' then char_of (of_char c + (32 :: nat)) else c)"

definition str_lower :: "string \<Rightarrow> string" where
  "str_lower s = map lower_char s"

definition endswith :: "string \<Rightarrow> string \<Rightarrow> bool" where
  "endswith s suf = suffix suf s"

text \<open>\<^verbatim>\<open>str.strip()\<close> removes leading and trailing ASCII white space.\<close>

definition is_space :: "char \<Rightarrow> bool" where
  "is_space c =
     (c = CHR '' '' \<or> (CHR 0x09 \<le> c \<and> c \<le> CHR 0x0D) \<or> (CHR 0x1C \<le> c \<and> c \<le> CHR 0x1F))"

definition strip :: "string \<Rightarrow> string" where
  "strip s = rev (dropWhile is_space (rev (dropWhile is_space s)))"

text \<open>\<^verbatim>\<open>str(n)\<close> for an integer: its decimal digits, with a sign when negative.\<close>

definition digit_char :: "nat \<Rightarrow> char" where
  "digit_char d = char_of (48 + d)"

fun str_nat :: "nat \<Rightarrow> string" where
  "str_nat n = (if n < 10 then [digit_char n] else str_nat (n div 10) @ [digit_char (n mod 10)])"

declare str_nat.simps [simp del]

definition str_int :: "int \<Rightarrow> string" where
  "str_int i = (if i < 0 then ''-'' @ str_nat (nat (- i)) else str_nat (nat i))"

definition quote :: char where
  "quote = CHR 0x27"

section \<open>Writing files\<close>

text \<open>
  \<^verbatim>\<open>os.listdir\<close> raises \<^verbatim>\<open>OSError\<close> unless the path is a directory. The text of the
  exception is the one Python prints.
\<close>

definition listdir :: "fs \<Rightarrow> string \<Rightarrow> string + string list" where
  "listdir fs p =
     (case fs p of
        Some (Dir l) \<Rightarrow> Inr l
      | Some (File _) \<Rightarrow> Inl (''[Errno 20] Not a directory: '' @ [quote] @ p @ [quote])
      | None \<Rightarrow> Inl (''[Errno 2] No such file or directory: '' @ [quote] @ p @ [quote]))"

text \<open>
  \<^verbatim>\<open>open(os.path.join(dir, name), 'w')\<close> followed by writing \<open>text\<close>: the file is created
  or truncated, and its name is in the listing of the directory afterwards. Opening fails
  when the path is a directory.
\<close>

definition write_file :: "fs \<Rightarrow> string \<Rightarrow> string \<Rightarrow> string \<Rightarrow> string + fs" where
  "write_file fs dir name text =
     (let p = path_join dir name in
      if isdir fs p then Inl (''[Errno 21] Is a directory: '' @ [quote] @ p @ [quote])
      else Inr ((case fs dir of
                   Some (Dir l) \<Rightarrow> fs(dir \<mapsto> Dir (if name \<in> set l then l else l @ [name]))
                 | _ \<Rightarrow> fs)(p \<mapsto> File text)))"

section \<open>WAV Index Writer: \<^verbatim>\<open>create_wav_jsonl\<close>\<close>

text \<open>
  The calls of \<^verbatim>\<open>progress_callback\<close> are returned as a list of
  \<open>(processed_count, total_count, stage)\<close>. The inner \<^verbatim>\<open>try\<close> of the source guards
  \<^verbatim>\<open>abspath\<close>, \<^verbatim>\<open>as_posix\<close>, \<^verbatim>\<open>json.dumps\<close> and the write of one line, none of which
  fails in this model, so every WAV name found is written.
\<close>

datatype stage = Scanning nat | Writing nat nat | Finished_paths nat nat

record wav_result =
  wav_count :: int
  wav_msg :: string
  wav_progress :: "(nat \<times> nat \<times> stage) list"
  wav_fs :: fs

definition manifest_line :: "pylib \<Rightarrow> string \<Rightarrow> string \<Rightarrow> string" where
  "manifest_line lib target_dir wav_file =
     (let full_path = abspath lib (path_join target_dir wav_file);
          full_path_posix = as_posix lib full_path
      in json_dumps lib (JObj [(''path'', JStr full_path_posix)]) @ [NL])"

definition create_wav_jsonl :: "pylib \<Rightarrow> fs \<Rightarrow> string \<Rightarrow> string \<Rightarrow> wav_result" where
  "create_wav_jsonl lib fs target_dir output_filename =
     (case listdir fs target_dir of
        Inl e \<Rightarrow>
          \<lparr>wav_count = - 1,
           wav_msg = ''OSError listing files in '' @ target_dir @ '': '' @ e,
           wav_progress = [], wav_fs = fs\<rparr>
      | Inr all_files \<Rightarrow>
          (let wav_filenames = filter (\<lambda>f. endswith (str_lower f) ''.wav'') all_files;
               total_wavs = length wav_filenames;
               start = [(0, total_wavs, Scanning total_wavs)];
               text = concat (map (manifest_line lib target_dir) wav_filenames);
               count = length wav_filenames
           in case write_file fs target_dir output_filename text of
                Inl e \<Rightarrow>
                  \<lparr>wav_count = - 1,
                   wav_msg = ''OSError creating '' @ output_filename @ '' in '' @ target_dir
                     @ '': '' @ e,
                   wav_progress = start, wav_fs = fs\<rparr>
              | Inr fs' \<Rightarrow>
                  \<lparr>wav_count = int count,
                   wav_msg = ''Created '' @ output_filename @ '' with '' @ str_nat count
                     @ '' WAV entries.'',
                   wav_progress = start
                     @ map (\<lambda>k. (k, total_wavs, Writing k total_wavs))
                         (filter (\<lambda>k. k mod 100 = 0) [1..<Suc total_wavs])
                     @ [(count, total_wavs, Finished_paths count total_wavs)],
                   wav_fs = fs'\<rparr>))"

section \<open>External Scorer Invoker: \<^verbatim>\<open>run_audio_aes\<close>\<close>

text \<open>
  What \<^verbatim>\<open>subprocess.run\<close> does with the external command is a parameter of the model: a
  function of the working directory, the argument vector and the file system. The command
  is not found (\<^verbatim>\<open>FileNotFoundError\<close>), cannot be started for another reason (any other
  \<^verbatim>\<open>OSError\<close>, with its text), or exits with a return code and its two captured streams.
  The command itself is taken not to change the file system.
\<close>

datatype proc_result =
    Not_found
  | Exec_error string
  | Exited int string string

type_synonym spawn = "string \<Rightarrow> string list \<Rightarrow> fs \<Rightarrow> proc_result"

record aes_result =
  aes_success :: bool
  aes_msg :: string
  aes_fs :: fs
  aes_spawned :: "(string \<times> string list) list"

definition file_is_empty :: "fs \<Rightarrow> string \<Rightarrow> bool" where
  "file_is_empty fs p = (fs p = Some (File []))"

definition run_audio_aes ::
  "spawn \<Rightarrow> fs \<Rightarrow> string \<Rightarrow> string \<Rightarrow> string \<Rightarrow> string \<Rightarrow> int \<Rightarrow> aes_result" where
  "run_audio_aes sp fs target_dir audio_aes_command input_jsonl output_jsonl batch_size =
     (let input_path = path_join target_dir input_jsonl;
          output_path = path_join target_dir output_jsonl
      in if \<not> path_exists fs input_path then
           \<lparr>aes_success = False, aes_msg = ''Input file not found: '' @ input_path,
            aes_fs = fs, aes_spawned = []\<rparr>
         else if file_is_empty fs input_path then
           \<lparr>aes_success = False, aes_msg = ''Input file is empty: '' @ input_path,
            aes_fs = fs, aes_spawned = []\<rparr>
         else
           (let command = [audio_aes_command, input_jsonl, ''--batch-size'', str_int batch_size]
            in case sp target_dir command fs of
                 Not_found \<Rightarrow>
                   \<lparr>aes_success = False,
                    aes_msg = ''Error: Command '' @ [quote] @ audio_aes_command @ [quote]
                      @ '' not found. Make sure it'' @ [quote]
                      @ ''s installed and in your system PATH.'',
                    aes_fs = fs, aes_spawned = [(target_dir, command)]\<rparr>
               | Exec_error e \<Rightarrow>
                   \<lparr>aes_success = False,
                    aes_msg = ''OSError during command execution or writing output ''
                      @ output_path @ '': '' @ e,
                    aes_fs = fs, aes_spawned = [(target_dir, command)]\<rparr>
               | Exited returncode stdout stderr \<Rightarrow>
                   (if returncode \<noteq> 0 then
                      \<lparr>aes_success = False,
                       aes_msg = ''Error running '' @ audio_aes_command @ ''. Exit code: ''
                         @ str_int returncode
                         @ (if stderr \<noteq> [] then [NL] @ ''Stderr:'' @ [NL] @ strip stderr else [])
                         @ (if stdout \<noteq> [] then [NL] @ ''Stdout:'' @ [NL] @ strip stdout else []),
                       aes_fs = fs, aes_spawned = [(target_dir, command)]\<rparr>
                    else
                      (case write_file fs target_dir output_jsonl stdout of
                         Inl e \<Rightarrow>
                           \<lparr>aes_success = False,
                            aes_msg = ''OSError during command execution or writing output ''
                              @ output_path @ '': '' @ e,
                            aes_fs = fs, aes_spawned = [(target_dir, command)]\<rparr>
                       | Inr fs' \<Rightarrow>
                           \<lparr>aes_success = True,
                            aes_msg = ''Successfully created '' @ output_jsonl @ ''.''
                              @ (if stderr \<noteq> []
                                 then [NL] @ ''  Command stderr output:'' @ [NL] @ strip stderr
                                 else []),
                            aes_fs = fs', aes_spawned = [(target_dir, command)]\<rparr>))))"

subsection \<open>Concrete commands\<close>

definition fs_run :: fs where
  "fs_run = map_of
     [(''/b'', Dir [''d'']),
      (''/b/d'', Dir [''a.wav'', ''paths.jsonl'']),
      (''/b/d/a.wav'', File ''RIFF''),
      (''/b/d/paths.jsonl'', File line_a)]"



definition sp_fails :: spawn where
  "sp_fails cwd command fs = Exited 2 (''partial'' @ [NL]) (''boom'' @ [NL])"

definition sp_scores :: spawn where
  "sp_scores cwd command fs = Exited 0 line_scores []"

section \<open>Batch Orchestrator: \<^verbatim>\<open>_perform_preprocessing\<close>\<close>

text \<open>
  Everything the worker sends to the log widget, to the status bar or to the task queue
  is an event, in the order of the calls. The texts are kept as the data they are built
  from; the clock readings (\<^verbatim>\<open>time.time()\<close>) that the source formats into some of them
  are outside the model. The stop points are those of revision 1.1.
\<close>

record summary =
  sum_job_status :: "string option"
  sum_total_dirs :: nat
  sum_processed :: nat
  sum_errors :: nat
  sum_skipped_no_wav :: nat
  sum_skipped_existing :: nat

datatype stop_point =
    Before_subdir | Before_paths | After_paths_error | After_paths_check
  | Before_command | During_command

datatype event =
    Log_fatal_listing string
  | Status_listing_failed
  | Dialog_listing_error string
  | Log_no_subdirs
  | Status_no_subdirs
  | Log_found nat
  | Status_starting nat nat string
  | Log_header nat nat string
  | Log_skip_existing
  | Progress nat nat string nat nat stage
  | Log_create_paths string
  | Log_paths_error
  | Log_no_wav
  | Log_running string
  | Status_running nat nat string
  | Log_command_finished
  | Log_result bool
  | Log_finished_result bool bool
  | Log_aes_msg string
  | Log_no_detail
  | Log_stop stop_point string
  | Status_summary summary
  | Log_summary summary
  | Dialog_complete summary

record pstate =
  processed_count :: nat
  error_count :: nat
  skipped_no_wav_count :: nat
  skipped_existing_count :: nat
  events :: "event list"
  cur_fs :: fs
  spawned :: "(string \<times> string list) list"

definition emit :: "event list \<Rightarrow> 'a pstate_scheme \<Rightarrow> 'a pstate_scheme" where
  "emit es st = st\<lparr>events := events st @ es\<rparr>"

definition init_pstate :: "fs \<Rightarrow> pstate" where
  "init_pstate fs =
     \<lparr>processed_count = 0, error_count = 0, skipped_no_wav_count = 0,
      skipped_existing_count = 0, events = [], cur_fs = fs, spawned = []\<rparr>"

definition summary_of :: "string option \<Rightarrow> nat \<Rightarrow> 'a pstate_scheme \<Rightarrow> summary" where
  "summary_of status n st =
     \<lparr>sum_job_status = status, sum_total_dirs = n, sum_processed = processed_count st,
      sum_errors = error_count st, sum_skipped_no_wav = skipped_no_wav_count st,
      sum_skipped_existing = skipped_existing_count st\<rparr>"

subsection \<open>The current revision\<close>

text \<open>
  The body of the \<^verbatim>\<open>for\<close> loop (lines 1108-1164) for the subdirectory \<open>subdir_name\<close> at
  index \<open>i\<close>. \<^verbatim>\<open>progress_reporter\<close> puts each call of the writer's callback on the queue.
\<close>

definition process_subdir ::
  "pylib \<Rightarrow> spawn \<Rightarrow> string \<Rightarrow> string \<Rightarrow> int \<Rightarrow> bool \<Rightarrow> nat \<Rightarrow> nat \<times> string
     \<Rightarrow> pstate \<Rightarrow> pstate" where
  "process_subdir lib sp base_dir audio_aes_cmd batch_size overwrite_existing total_dirs ix st =
     (let i = fst ix; subdir_name = snd ix;
          current_subdir_path = path_join base_dir subdir_name;
          st1 = emit [Status_starting (i + 1) total_dirs subdir_name,
                      Log_header (i + 1) total_dirs subdir_name] st;
          scores_jsonl_path = path_join current_subdir_path SCORES_FILENAME
      in if \<not> overwrite_existing \<and> path_exists (cur_fs st1) scores_jsonl_path then
           emit [Log_skip_existing]
             (st1\<lparr>skipped_existing_count := skipped_existing_count st1 + 1\<rparr>)
         else
           (let w = create_wav_jsonl lib (cur_fs st1) current_subdir_path PATHS_FILENAME;
                st2 = emit (map (\<lambda>(c, t, m). Progress (i + 1) total_dirs subdir_name c t m)
                              (wav_progress w)
                            @ [Log_create_paths (wav_msg w)])
                        (st1\<lparr>cur_fs := wav_fs w\<rparr>)
            in if wav_count w < 0 then
                 emit [Log_paths_error] (st2\<lparr>error_count := error_count st2 + 1\<rparr>)
               else if wav_count w = 0 then
                 emit [Log_no_wav]
                   (st2\<lparr>skipped_no_wav_count := skipped_no_wav_count st2 + 1\<rparr>)
               else
                 (let st3 = emit [Log_running audio_aes_cmd,
                                  Status_running (i + 1) total_dirs subdir_name] st2;
                      r = run_audio_aes sp (cur_fs st3) current_subdir_path audio_aes_cmd
                            PATHS_FILENAME SCORES_FILENAME batch_size;
                      st4 = emit ([Log_command_finished, Log_result (aes_success r)]
                                  @ (if aes_msg r \<noteq> [] then [Log_aes_msg (aes_msg r)] else []))
                              (st3\<lparr>cur_fs := aes_fs r,
                                   spawned := spawned st3 @ aes_spawned r\<rparr>)
                  in if aes_success r
                     then st4\<lparr>processed_count := processed_count st4 + 1\<rparr>
                     else st4\<lparr>error_count := error_count st4 + 1\<rparr>)))"

fun preprocess_loop ::
  "pylib \<Rightarrow> spawn \<Rightarrow> string \<Rightarrow> string \<Rightarrow> int \<Rightarrow> bool \<Rightarrow> nat \<Rightarrow> (nat \<times> string) list
     \<Rightarrow> pstate \<Rightarrow> pstate" where
  "preprocess_loop lib sp base_dir cmd bs ow total_dirs [] st = st"
| "preprocess_loop lib sp base_dir cmd bs ow total_dirs (ix # rest) st =
     preprocess_loop lib sp base_dir cmd bs ow total_dirs rest
       (process_subdir lib sp base_dir cmd bs ow total_dirs ix st)"

text \<open>
  \<^verbatim>\<open>_perform_preprocessing\<close> (lines 1079-1187). The subdirectories are the entries of the
  listing that are directories, sorted as Python sorts strings.
\<close>

definition find_subdirs :: "fs \<Rightarrow> string \<Rightarrow> string list \<Rightarrow> string list" where
  "find_subdirs fs base_dir listing =
     sort (filter (\<lambda>d. isdir fs (path_join base_dir d)) listing)"

definition perform_preprocessing ::
  "pylib \<Rightarrow> spawn \<Rightarrow> fs \<Rightarrow> string \<Rightarrow> string \<Rightarrow> int \<Rightarrow> bool \<Rightarrow> pstate" where
  "perform_preprocessing lib sp fs base_dir audio_aes_cmd batch_size overwrite_existing =
     (case listdir fs base_dir of
        Inl e \<Rightarrow>
          emit [Log_fatal_listing e, Status_listing_failed, Dialog_listing_error e]
            (init_pstate fs)
      | Inr listing \<Rightarrow>
          (let subdirs_found = find_subdirs fs base_dir listing in
           if subdirs_found = [] then
             emit [Log_no_subdirs, Status_no_subdirs] (init_pstate fs)
           else
             (let total_dirs = length subdirs_found;
                  st = preprocess_loop lib sp base_dir audio_aes_cmd batch_size
                         overwrite_existing total_dirs (enumerate 0 subdirs_found)
                         (emit [Log_found total_dirs] (init_pstate fs));
                  s = summary_of None total_dirs st
              in emit [Status_summary s, Log_summary s, Dialog_complete s] st)))"

subsection \<open>Revision 1.1, with cooperative cancellation\<close>

text \<open>
  \<^verbatim>\<open>stop_event\<close> is set by another thread at a moment the worker does not control. The
  model takes the answers of the successive calls of \<^verbatim>\<open>stop_event.is_set()\<close> as a
  parameter \<open>stop\<close>, indexed by the number of calls made so far. The invoker of
  revision 1.1 differs from the current one in its messages only and is a parameter; the
  writer is the same function in both revisions.
\<close>

record pstate_v1_1 = pstate +
  polls :: nat

type_synonym invoker = "fs \<Rightarrow> string \<Rightarrow> string \<Rightarrow> string \<Rightarrow> string \<Rightarrow> int \<Rightarrow> aes_result"

definition is_set :: "(nat \<Rightarrow> bool) \<Rightarrow> pstate_v1_1 \<Rightarrow> bool \<times> pstate_v1_1" where
  "is_set stop st = (stop (polls st), st\<lparr>polls := polls st + 1\<rparr>)"

text \<open>\<^verbatim>\<open>progress_reporter\<close> of revision 1.1 drops a report when the stop event is set.\<close>

fun report_progress ::
  "(nat \<Rightarrow> bool) \<Rightarrow> nat \<Rightarrow> nat \<Rightarrow> string \<Rightarrow> (nat \<times> nat \<times> stage) list
     \<Rightarrow> pstate_v1_1 \<Rightarrow> pstate_v1_1" where
  "report_progress stop i total_dirs name [] st = st"
| "report_progress stop i total_dirs name (p # ps) st =
     (let (halt, st1) = is_set stop st in
      report_progress stop i total_dirs name ps
        (if halt then st1
         else emit [Progress i total_dirs name (fst p) (fst (snd p)) (snd (snd p))] st1))"

text \<open>
  One iteration of the loop of revision 1.1 (lines 903-972), in three parts. The first
  component of each result tells whether the iteration ended with \<^verbatim>\<open>break\<close>.

  The last part runs the command (lines 942-972): the stop event is checked before the
  call; the call itself blocks; its result is logged and counted even when a stop was
  requested meanwhile.
\<close>

definition run_command_v1_1 ::
  "invoker \<Rightarrow> (nat \<Rightarrow> bool) \<Rightarrow> string \<Rightarrow> int \<Rightarrow> nat \<Rightarrow> nat \<Rightarrow> string \<Rightarrow> string
     \<Rightarrow> pstate_v1_1 \<Rightarrow> bool \<times> pstate_v1_1" where
  "run_command_v1_1 run stop audio_aes_cmd batch_size total_dirs i subdir_name
       current_subdir_path st2 =
     (let (halt3, st3) = is_set stop st2
      in if halt3 then (True, emit [Log_stop Before_command subdir_name] st3)
         else
           (let st4 = emit [Log_running audio_aes_cmd,
                            Status_running (i + 1) total_dirs subdir_name] st3;
                r = run (cur_fs st4) current_subdir_path audio_aes_cmd
                      PATHS_FILENAME SCORES_FILENAME batch_size;
                st5 = st4\<lparr>cur_fs := aes_fs r, spawned := spawned st4 @ aes_spawned r\<rparr>;
                (halt4, st6) = is_set stop st5;
                st7 = emit ((if halt4 then [Log_stop During_command subdir_name] else [])
                            @ [Log_finished_result (aes_success r) halt4]) st6;
                st8 = (if aes_msg r \<noteq> [] then emit [Log_aes_msg (strip (aes_msg r))] st7
                       else if \<not> aes_success r then
                         (let (halt5, st7a) = is_set stop st7
                          in if \<not> halt5 then emit [Log_no_detail] st7a else st7a)
                       else st7);
                st9 = (if aes_success r
                       then st8\<lparr>processed_count := processed_count st8 + 1\<rparr>
                       else st8\<lparr>error_count := error_count st8 + 1\<rparr>)
            in is_set stop st9))"

text \<open>The middle part writes the manifest and acts on the count (lines 926-940).\<close>

definition write_paths_v1_1 ::
  "pylib \<Rightarrow> invoker \<Rightarrow> (nat \<Rightarrow> bool) \<Rightarrow> string \<Rightarrow> int \<Rightarrow> nat \<Rightarrow> nat \<Rightarrow> string \<Rightarrow> string
     \<Rightarrow> pstate_v1_1 \<Rightarrow> bool \<times> pstate_v1_1" where
  "write_paths_v1_1 lib run stop audio_aes_cmd batch_size total_dirs i subdir_name
       current_subdir_path st1a =
     (let w = create_wav_jsonl lib (cur_fs st1a) current_subdir_path PATHS_FILENAME;
          st2 = emit [Log_create_paths (wav_msg w)]
                  (report_progress stop (i + 1) total_dirs subdir_name (wav_progress w)
                     (st1a\<lparr>cur_fs := wav_fs w\<rparr>))
      in if wav_count w < 0 then
           (let st3 = emit [Log_paths_error] (st2\<lparr>error_count := error_count st2 + 1\<rparr>);
                (halt2, st4) = is_set stop st3
            in if halt2 then (True, emit [Log_stop After_paths_error subdir_name] st4)
               else (False, st4))
         else if wav_count w = 0 then
           (let st3 = emit [Log_no_wav]
                        (st2\<lparr>skipped_no_wav_count := skipped_no_wav_count st2 + 1\<rparr>);
                (halt2, st4) = is_set stop st3
            in if halt2 then (True, emit [Log_stop After_paths_check subdir_name] st4)
               else (False, st4))
         else run_command_v1_1 run stop audio_aes_cmd batch_size total_dirs i subdir_name
                current_subdir_path st2)"

text \<open>The first part checks the stop event and the skip condition (lines 903-924).\<close>

definition process_subdir_v1_1 ::
  "pylib \<Rightarrow> invoker \<Rightarrow> (nat \<Rightarrow> bool) \<Rightarrow> string \<Rightarrow> string \<Rightarrow> int \<Rightarrow> bool \<Rightarrow> nat
     \<Rightarrow> nat \<times> string \<Rightarrow> pstate_v1_1 \<Rightarrow> bool \<times> pstate_v1_1" where
  "process_subdir_v1_1 lib run stop base_dir audio_aes_cmd batch_size overwrite_existing
       total_dirs ix st0 =
     (let i = fst ix; subdir_name = snd ix;
          (halt0, st) = is_set stop st0
      in if halt0 then (True, emit [Log_stop Before_subdir subdir_name] st)
         else
           (let current_subdir_path = path_join base_dir subdir_name;
                st1 = emit [Status_starting (i + 1) total_dirs subdir_name,
                            Log_header (i + 1) total_dirs subdir_name] st;
                scores_jsonl_path = path_join current_subdir_path SCORES_FILENAME
            in if \<not> overwrite_existing \<and> path_exists (cur_fs st1) scores_jsonl_path then
                 (False, emit [Log_skip_existing]
                    (st1\<lparr>skipped_existing_count := skipped_existing_count st1 + 1\<rparr>))
               else
                 (let (halt1, st1a) = is_set stop st1
                  in if halt1 then (True, emit [Log_stop Before_paths subdir_name] st1a)
                     else write_paths_v1_1 lib run stop audio_aes_cmd batch_size total_dirs i
                            subdir_name current_subdir_path st1a)))"

fun preprocess_loop_v1_1 ::
  "pylib \<Rightarrow> invoker \<Rightarrow> (nat \<Rightarrow> bool) \<Rightarrow> string \<Rightarrow> string \<Rightarrow> int \<Rightarrow> bool \<Rightarrow> nat
     \<Rightarrow> (nat \<times> string) list \<Rightarrow> pstate_v1_1 \<Rightarrow> pstate_v1_1" where
  "preprocess_loop_v1_1 lib run stop base_dir cmd bs ow total_dirs [] st = st"
| "preprocess_loop_v1_1 lib run stop base_dir cmd bs ow total_dirs (ix # rest) st =
     (let (halt, st') = process_subdir_v1_1 lib run stop base_dir cmd bs ow total_dirs ix st
      in if halt then st'
         else preprocess_loop_v1_1 lib run stop base_dir cmd bs ow total_dirs rest st')"

definition init_pstate_v1_1 :: "fs \<Rightarrow> pstate_v1_1" where
  "init_pstate_v1_1 fs =
     \<lparr>processed_count = 0, error_count = 0, skipped_no_wav_count = 0,
      skipped_existing_count = 0, events = [], cur_fs = fs, spawned = [], polls = 0\<rparr>"

definition perform_preprocessing_v1_1 ::
  "pylib \<Rightarrow> invoker \<Rightarrow> (nat \<Rightarrow> bool) \<Rightarrow> fs \<Rightarrow> string \<Rightarrow> string \<Rightarrow> int \<Rightarrow> bool
     \<Rightarrow> pstate_v1_1" where
  "perform_preprocessing_v1_1 lib run stop fs base_dir audio_aes_cmd batch_size
       overwrite_existing =
     (case listdir fs base_dir of
        Inl e \<Rightarrow>
          emit [Log_fatal_listing e, Status_listing_failed, Dialog_listing_error e]
            (init_pstate_v1_1 fs)
      | Inr listing \<Rightarrow>
          (let subdirs_found = find_subdirs fs base_dir listing in
           if subdirs_found = [] then
             emit [Log_no_subdirs, Status_no_subdirs] (init_pstate_v1_1 fs)
           else
             (let total_dirs = length subdirs_found;
                  st = preprocess_loop_v1_1 lib run stop base_dir audio_aes_cmd batch_size
                         overwrite_existing total_dirs (enumerate 0 subdirs_found)
                         (emit [Log_found total_dirs] (init_pstate_v1_1 fs));
                  (halted, st') = is_set stop st;
                  s = summary_of
                        (Some (if \<not> halted then ''Completed normally''
                               else ''Halted by user request''))
                        total_dirs st'
              in emit [Status_summary s, Log_summary s, Dialog_complete s] st')))"

text \<open>The events that make up the final summary.\<close>

fun is_summary_event :: "event \<Rightarrow> bool" where
  "is_summary_event (Status_summary s) = True"
| "is_summary_event (Log_summary s) = True"
| "is_summary_event (Dialog_complete s) = True"
| "is_summary_event _ = False"

subsection \<open>Concrete base directories\<close>

text \<open>
  \<^verbatim>\<open>A\<close> holds three WAV files and no scores; \<^verbatim>\<open>B\<close> holds no WAV file and a manifest
  left from an earlier run.
\<close>

definition fs_two :: fs where
  "fs_two = map_of
     [(''/b'', Dir [''B'', ''A'']),
      (''/b/A'', Dir [''x.wav'', ''y.WAV'', ''z.wav'', ''notes.txt'']),
      (''/b/A/x.wav'', File ''RIFF''),
      (''/b/A/y.WAV'', File ''RIFF''),
      (''/b/A/z.wav'', File ''RIFF''),
      (''/b/A/notes.txt'', File ''hello''),
      (''/b/B'', Dir [''notes.txt'', ''paths.jsonl'']),
      (''/b/B/notes.txt'', File ''hello''),
      (''/b/B/paths.jsonl'', File line_a)]"

text \<open>A base directory without subdirectories.\<close>

definition fs_flat :: fs where
  "fs_flat = map_of
     [(''/b'', Dir [''readme.txt'']),
      (''/b/readme.txt'', File ''hello'')]"

text \<open>
  \<open>extends_quietly st st'\<close>: the events of \<open>st'\<close> are those of \<open>st\<close> followed by events
  that are not part of a summary.
\<close>

definition extends_quietly :: "'a pstate_scheme \<Rightarrow> 'b pstate_scheme \<Rightarrow> bool" where
  "extends_quietly st st' =
     (prefix (events st) (events st')
      \<and> list_all (\<lambda>e. \<not> is_summary_event e) (drop (length (events st)) (events st')))"

section \<open>The application object\<close>

text \<open>
  The fields of \<^verbatim>\<open>AudioReviewApp\<close> that the claims are about. Two fields are not in the
  source: \<open>alive\<close> lists the worker threads that are running, each with the number it
  was started under, and \<open>started\<close> counts the threads started so far. What the
  application shows in dialogs and in the status bar is the list \<open>ui\<close>.
\<close>

record job =
  job_base_dir :: string
  job_cmd :: string
  job_batch_size :: int
  job_overwrite :: bool

datatype ui_event =
    Error_invalid_directory
  | Warning_preprocessing_busy
  | Status_cancelled
  | Log_cleared
  | Status_starting_job
  | Log_job_header job
  | Status_selected string
  | Status_nothing_to_sort
  | Status_sorting string
  | Status_sorted string bool

record app =
  selected_directory :: string
  full_audio_data :: "entry list"
  display_audio_data :: "entry list"
  current_sort_column :: "string option"
  current_sort_reverse :: bool
  ui :: "ui_event list"
  alive :: "(nat \<times> job) list"
  started :: nat

text \<open>Revision 1.1 keeps a reference to the worker thread it started last.\<close>

record app_v1_1 = app +
  preprocessing_thread :: "nat option"

definition init_app :: app where
  "init_app =
     \<lparr>selected_directory = [], full_audio_data = [], display_audio_data = [],
      current_sort_column = None, current_sort_reverse = False, ui = [],
      alive = [], started = 0\<rparr>"

definition init_app_v1_1 :: app_v1_1 where
  "init_app_v1_1 =
     \<lparr>selected_directory = [], full_audio_data = [], display_audio_data = [],
      current_sort_column = None, current_sort_reverse = False, ui = [],
      alive = [], started = 0, preprocessing_thread = None\<rparr>"

section \<open>Starting the orchestrator: \<^verbatim>\<open>run_preprocessing_thread\<close>\<close>

text \<open>
  The options dialog is modal; what the user does in it is a parameter. \<^verbatim>\<open>on_ok\<close> closes
  the dialog only with a command and a batch size it has validated.
\<close>

datatype dialog_result = Dialog_cancelled | Dialog_ok string int bool

definition start_thread :: "job \<Rightarrow> 'a app_scheme \<Rightarrow> 'a app_scheme" where
  "start_thread j a = a\<lparr>alive := alive a @ [(started a, j)], started := started a + 1\<rparr>"

text \<open>The current revision (lines 974-1077).\<close>

definition run_preprocessing_thread :: "fs \<Rightarrow> dialog_result \<Rightarrow> app \<Rightarrow> app" where
  "run_preprocessing_thread fs dialog a =
     (let base_dir = selected_directory a in
      if base_dir = [] \<or> \<not> isdir fs base_dir then
        a\<lparr>ui := ui a @ [Error_invalid_directory]\<rparr>
      else
        (case dialog of
           Dialog_cancelled \<Rightarrow> a\<lparr>ui := ui a @ [Status_cancelled]\<rparr>
         | Dialog_ok aes_cmd batch_size overwrite \<Rightarrow>
             (let j = \<lparr>job_base_dir = base_dir, job_cmd = aes_cmd,
                       job_batch_size = batch_size, job_overwrite = overwrite\<rparr>
              in start_thread j
                   (a\<lparr>ui := ui a @ [Log_cleared, Status_starting_job, Log_job_header j]\<rparr>))))"

text \<open>
  Revision 1.1 (lines 822-873): the same, with the check of the thread reference between
  the check of the directory and the dialog.
\<close>

definition thread_is_alive :: "app_v1_1 \<Rightarrow> bool" where
  "thread_is_alive a =
     (case preprocessing_thread a of
        None \<Rightarrow> False
      | Some t \<Rightarrow> t \<in> fst ` set (alive a))"

definition run_preprocessing_thread_v1_1 :: "fs \<Rightarrow> dialog_result \<Rightarrow> app_v1_1 \<Rightarrow> app_v1_1" where
  "run_preprocessing_thread_v1_1 fs dialog a =
     (let base_dir = selected_directory a in
      if base_dir = [] \<or> \<not> isdir fs base_dir then
        a\<lparr>ui := ui a @ [Error_invalid_directory]\<rparr>
      else if thread_is_alive a then
        a\<lparr>ui := ui a @ [Warning_preprocessing_busy]\<rparr>
      else
        (case dialog of
           Dialog_cancelled \<Rightarrow> a\<lparr>ui := ui a @ [Status_cancelled]\<rparr>
         | Dialog_ok aes_cmd batch_size overwrite \<Rightarrow>
             (let j = \<lparr>job_base_dir = base_dir, job_cmd = aes_cmd,
                       job_batch_size = batch_size, job_overwrite = overwrite\<rparr>
              in (start_thread j
                    (a\<lparr>ui := ui a @ [Log_cleared, Status_starting_job, Log_job_header j]\<rparr>))
                 \<lparr>preprocessing_thread := Some (started a)\<rparr>)))"

text \<open>
  A worker thread ends when \<^verbatim>\<open>_perform_preprocessing\<close> returns. In revision 1.1 the
  last statement of every path through that function clears the thread reference.
\<close>

definition worker_returns :: "nat \<Rightarrow> app \<Rightarrow> app" where
  "worker_returns t a =
     (if t \<in> fst ` set (alive a) then a\<lparr>alive := filter (\<lambda>w. fst w \<noteq> t) (alive a)\<rparr> else a)"

definition worker_returns_v1_1 :: "nat \<Rightarrow> app_v1_1 \<Rightarrow> app_v1_1" where
  "worker_returns_v1_1 t a =
     (if t \<in> fst ` set (alive a)
      then a\<lparr>alive := filter (\<lambda>w. fst w \<noteq> t) (alive a), preprocessing_thread := None\<rparr>
      else a)"

text \<open>\<^verbatim>\<open>browse_directory\<close> with the directory the user chose (empty when cancelled).\<close>

definition browse_directory :: "string \<Rightarrow> 'a app_scheme \<Rightarrow> 'a app_scheme" where
  "browse_directory directory a =
     (if directory \<noteq> [] then
        a\<lparr>selected_directory := directory, ui := ui a @ [Status_selected directory],
          full_audio_data := [], display_audio_data := []\<rparr>
      else a)"

text \<open>
  What can happen to the application, as far as the worker threads are concerned, and the
  state after a sequence of such actions. The file system may be a different one at each
  request.
\<close>

datatype action =
    Browse string
  | Request_start fs dialog_result
  | Worker_returns nat

fun app_step :: "action \<Rightarrow> app \<Rightarrow> app" where
  "app_step (Browse d) a = browse_directory d a"
| "app_step (Request_start fs dialog) a = run_preprocessing_thread fs dialog a"
| "app_step (Worker_returns t) a = worker_returns t a"

fun app_step_v1_1 :: "action \<Rightarrow> app_v1_1 \<Rightarrow> app_v1_1" where
  "app_step_v1_1 (Browse d) a = browse_directory d a"
| "app_step_v1_1 (Request_start fs dialog) a = run_preprocessing_thread_v1_1 fs dialog a"
| "app_step_v1_1 (Worker_returns t) a = worker_returns_v1_1 t a"

definition run_actions :: "action list \<Rightarrow> app \<Rightarrow> app" where
  "run_actions acts a = foldl (\<lambda>s act. app_step act s) a acts"

definition run_actions_v1_1 :: "action list \<Rightarrow> app_v1_1 \<Rightarrow> app_v1_1" where
  "run_actions_v1_1 acts a = foldl (\<lambda>s act. app_step_v1_1 act s) a acts"

text \<open>
  The invariant of revision 1.1: at most one worker thread is running, and a running
  worker is the one the thread reference points to.
\<close>

definition thread_inv :: "app_v1_1 \<Rightarrow> bool" where
  "thread_inv a \<longleftrightarrow> length (alive a) \<le> 1
      \<and> (\<forall>w\<in>set (alive a). preprocessing_thread a = Some (fst w))"

text \<open>The requests used as concrete inputs.\<close>

definition two_requests :: "action list" where
  "two_requests =
     [Browse ''/b'',
      Request_start fs_two (Dialog_ok ''audio-aes'' 100 False),
      Request_start fs_two (Dialog_ok ''audio-aes'' 100 False)]"

definition demo_job :: job where
  "demo_job = \<lparr>job_base_dir = ''/b'', job_cmd = ''audio-aes'', job_batch_size = 100,
                job_overwrite = False\<rparr>"

section \<open>Filter/Sort Engine: \<^verbatim>\<open>sort_column\<close>\<close>

text \<open>
  The order of Python's floats (without NaN), and the keys that \<^verbatim>\<open>sort_key\<close> returns:
  a float or a lower-cased string. Python raises \<^verbatim>\<open>TypeError\<close> when it compares a float
  with a string; the order below puts floats first there, and \<open>sort_column\<close> never sorts
  a list with keys of both kinds.
\<close>

instantiation pyfloat :: linorder
begin

fun less_eq_pyfloat :: "pyfloat \<Rightarrow> pyfloat \<Rightarrow> bool" where
  "less_eq_pyfloat NegInf y = True"
| "less_eq_pyfloat (Fin a) NegInf = False"
| "less_eq_pyfloat (Fin a) (Fin b) = (a \<le> b)"
| "less_eq_pyfloat (Fin a) PosInf = True"
| "less_eq_pyfloat PosInf PosInf = True"
| "less_eq_pyfloat PosInf y = False"

definition less_pyfloat :: "pyfloat \<Rightarrow> pyfloat \<Rightarrow> bool" where
  "less_pyfloat x y = (x \<le> y \<and> \<not> y \<le> x)"

instance
proof
  fix x y z :: pyfloat
  show "(x < y) = (x \<le> y \<and> \<not> y \<le> x)" by (simp add: less_pyfloat_def)
  show "x \<le> x" by (cases x) simp_all
  show "x \<le> y \<Longrightarrow> y \<le> z \<Longrightarrow> x \<le> z" by (cases x; cases y; cases z) simp_all
  show "x \<le> y \<Longrightarrow> y \<le> x \<Longrightarrow> x = y" by (cases x; cases y) simp_all
  show "x \<le> y \<or> y \<le> x" by (cases x; cases y) auto
qed

end

datatype skey = KFloat pyfloat | KStr string

instantiation skey :: linorder
begin

fun less_eq_skey :: "skey \<Rightarrow> skey \<Rightarrow> bool" where
  "less_eq_skey (KFloat a) (KFloat b) = (a \<le> b)"
| "less_eq_skey (KFloat a) (KStr t) = True"
| "less_eq_skey (KStr s) (KFloat b) = False"
| "less_eq_skey (KStr s) (KStr t) = (s \<le> t)"

definition less_skey :: "skey \<Rightarrow> skey \<Rightarrow> bool" where
  "less_skey x y = (x \<le> y \<and> \<not> y \<le> x)"

instance
proof
  fix x y z :: skey
  show "(x < y) = (x \<le> y \<and> \<not> y \<le> x)" by (simp add: less_skey_def)
  show "x \<le> x" by (cases x) simp_all
  show "x \<le> y \<Longrightarrow> y \<le> z \<Longrightarrow> x \<le> z" by (cases x; cases y; cases z) auto
  show "x \<le> y \<Longrightarrow> y \<le> x \<Longrightarrow> x = y" by (cases x; cases y) auto
  show "x \<le> y \<or> y \<le> x" by (cases x; cases y) auto
qed

end




text \<open>
  \<^verbatim>\<open>list.sort(key=..., reverse=...)\<close>: a stable sort by the key; with \<^verbatim>\<open>reverse=True\<close>
  the list is reversed, sorted and reversed again, which keeps elements with equal keys
  in their original order.
\<close>

definition list_sort :: "('a \<Rightarrow> 'k::linorder) \<Rightarrow> bool \<Rightarrow> 'a list \<Rightarrow> 'a list" where
  "list_sort key reverse xs =
     (if reverse then rev (sort_key key (rev xs)) else sort_key key xs)"





subsection \<open>Concrete records\<close>







section \<open>Properties of the Score Store Reader\<close>

lemma read_paths_lines_eq:
  "read_paths_lines lib ls (c, n) =
     (c @ List.map_filter (json_loads lib) ls, n + length (filter (\<lambda>l. json_loads lib l = None) ls))"
  by (induction ls arbitrary: c n) (auto simp: List.map_filter_simps split: option.splits)

lemma read_scores_lines_eq:
  "read_scores_lines lib ls c = c @ List.map_filter (json_loads lib) ls"
  by (induction ls arbitrary: c) (auto simp: List.map_filter_simps split: option.splits)

lemma try_subdir_files:
  assumes "fs paths_file = Some (File ptext)" and "fs scores_file = Some (File stext)"
  shows "try_subdir lib fs paths_file scores_file (d, n) =
     (if length (valid_lines lib ptext) \<noteq> length (valid_lines lib stext)
      then Done (d, n + length (invalid_lines lib ptext))
      else merge_entries lib fs (zip (valid_lines lib ptext) (valid_lines lib stext))
             (d, n + length (invalid_lines lib ptext)))"
  unfolding try_subdir_def valid_lines_def invalid_lines_def
  by (simp add: assms read_paths_lines_eq read_scores_lines_eq)



lemma merge_entries_data_append:
  "fst (outcome_state (merge_entries lib fs prs (d, n))) =
     d @ fst (outcome_state (merge_entries lib fs prs ([], 0)))"
proof (induction prs arbitrary: d n)
  case Nil
  show ?case by simp
next
  case (Cons pr prs)
  let ?D = "\<lambda>acc. fst (outcome_state (merge_entries lib fs prs acc))"
  show ?case
  proof (cases "merge_pair lib fs pr")
    case Skip_entry
    have "?D (d, n + 1) = d @ ?D ([], 0)" by (rule Cons.IH)
    moreover have "?D ([], 0 + 1) = [] @ ?D ([], 0)" by (rule Cons.IH)
    ultimately show ?thesis using Skip_entry by simp
  next
    case (Append_entry e)
    have "?D (d @ [e], n) = (d @ [e]) @ ?D ([], 0)" by (rule Cons.IH)
    moreover have "?D ([] @ [e], 0) = ([] @ [e]) @ ?D ([], 0)" by (rule Cons.IH)
    ultimately show ?thesis using Append_entry by simp
  next
    case Raise_exception
    then show ?thesis by simp
  qed
qed


lemma try_subdir_not_files:
  assumes "\<not> (\<exists>ptext stext. fs pf = Some (File ptext) \<and> fs sf = Some (File stext))"
  shows "fst (outcome_state (try_subdir lib fs pf sf (d, n))) = d"
proof (cases "fs pf")
  case None
  then show ?thesis by (simp add: try_subdir_def)
next
  case (Some nd)
  show ?thesis
  proof (cases nd)
    case (Dir l)
    with Some show ?thesis by (simp add: try_subdir_def)
  next
    case (File ptext)
    with Some assms have nf: "\<forall>stext. fs sf \<noteq> Some (File stext)" by simp
    show ?thesis
    proof (cases "fs sf")
      case None
      with Some File show ?thesis by (simp add: try_subdir_def Let_def)
    next
      case (Some nd')
      with nf obtain l where "nd' = Dir l" by (cases nd') auto
      with Some \<open>fs pf = Some nd\<close> File show ?thesis by (simp add: try_subdir_def Let_def)
    qed
  qed
qed

lemma try_subdir_data_append:
  "fst (outcome_state (try_subdir lib fs pf sf (d, n))) =
     d @ fst (outcome_state (try_subdir lib fs pf sf ([], 0)))"
proof (cases "\<exists>ptext stext. fs pf = Some (File ptext) \<and> fs sf = Some (File stext)")
  case True
  then obtain ptext stext where f: "fs pf = Some (File ptext)" "fs sf = Some (File stext)"
    by blast
  show ?thesis
    unfolding try_subdir_files[OF f]
    using merge_entries_data_append[of lib fs _ d "n + length (invalid_lines lib ptext)"]
          merge_entries_data_append[of lib fs _ "[]" "0 + length (invalid_lines lib ptext)"]
    by simp
next
  case False
  then show ?thesis by (simp add: try_subdir_not_files)
qed


lemma all_data_process_item:
  "all_data (process_item lib fs base item st) =
     (if isdir fs (path_join base item)
         \<and> path_exists fs (path_join (path_join base item) PATHS_FILENAME)
         \<and> path_exists fs (path_join (path_join base item) SCORES_FILENAME)
      then fst (outcome_state (try_subdir lib fs
                  (path_join (path_join base item) PATHS_FILENAME)
                  (path_join (path_join base item) SCORES_FILENAME)
                  (all_data st, invalid_entries_count st)))
      else all_data st)"
  by (simp add: process_item_def Let_def split: outcome.splits)

lemma process_item_data_append:
  "all_data (process_item lib fs base item st) =
     all_data st @ all_data (process_item lib fs base item load_init)"
  unfolding all_data_process_item
  using try_subdir_data_append[of lib fs _ _ "all_data st" "invalid_entries_count st"]
        try_subdir_data_append[of lib fs _ _ "[]" "invalid_entries_count load_init"]
  by (simp add: load_init_def)


lemma load_loop_data:
  "all_data (load_loop lib fs base items st) =
     all_data st @ concat (map (\<lambda>it. all_data (process_item lib fs base it load_init)) items)"
proof (induction items arbitrary: st)
  case Nil
  show ?case by simp
next
  case (Cons it items)
  show ?case
    using Cons.IH[of "process_item lib fs base it st"]
          process_item_data_append[of lib fs base it st]
    by simp
qed


lemma loaded_eq:
  assumes "base \<noteq> []" and "fs base = Some (Dir listing)"
  shows "loaded (load_audio_data lib fs base) =
           all_data (load_loop lib fs base listing load_init)"
  using assms by (simp add: load_audio_data_def Let_def)


lemma map_filter_append:
  "List.map_filter f (xs @ ys) = List.map_filter f xs @ List.map_filter f ys"
  by (simp add: List.map_filter_def)

subsection \<open>Lines that are not valid JSON\<close>

text \<open>
  Claim C6, as the code has it. A line of the manifest that is not valid JSON has the
  effect of deleting the line and adding one to the counter of invalid entries; a line of
  the scores file that is not valid JSON has the effect of deleting the line, and the
  counter is not touched. In both cases the remaining lines are read, and the
  subdirectory is then processed with the valid lines of both files: the only lines
  counted while reading are the invalid lines of the manifest.
\<close>

theorem C6_invalid_line_skipped:
  assumes "json_loads lib line = None"
    and "fs paths_file = Some (File ptext)"
    and "fs scores_file = Some (File stext)"
  shows "read_paths_lines lib (pre @ line # post) (paths_content, invalid) =
           read_paths_lines lib (pre @ post) (paths_content, invalid + 1)
       \<and> read_scores_lines lib (pre @ line # post) scores_content =
           read_scores_lines lib (pre @ post) scores_content
       \<and> try_subdir lib fs paths_file scores_file (d, invalid) =
           (if length (valid_lines lib ptext) \<noteq> length (valid_lines lib stext)
            then Done (d, invalid + length (invalid_lines lib ptext))
            else merge_entries lib fs (zip (valid_lines lib ptext) (valid_lines lib stext))
                   (d, invalid + length (invalid_lines lib ptext)))"
proof (intro conjI)
  show "read_paths_lines lib (pre @ line # post) (paths_content, invalid) =
           read_paths_lines lib (pre @ post) (paths_content, invalid + 1)"
    using assms(1) by (simp add: read_paths_lines_eq map_filter_append List.map_filter_simps)
  show "read_scores_lines lib (pre @ line # post) scores_content =
           read_scores_lines lib (pre @ post) scores_content"
    using assms(1) by (simp add: read_scores_lines_eq map_filter_append List.map_filter_simps)
  show "try_subdir lib fs paths_file scores_file (d, invalid) =
           (if length (valid_lines lib ptext) \<noteq> length (valid_lines lib stext)
            then Done (d, invalid + length (invalid_lines lib ptext))
            else merge_entries lib fs (zip (valid_lines lib ptext) (valid_lines lib stext))
                   (d, invalid + length (invalid_lines lib ptext)))"
    by (rule try_subdir_files[OF assms(2,3)])
qed

text \<open>
  Claim C6 says that an invalid line of either file is counted. The scores file of
  \<open>fs_bad_score\<close> has one line that is not valid JSON, one record is loaded, and the
  count of invalid entries that the load prints is zero.
\<close>

theorem C6_counterexample:
  "invalid_lines demo_lib (line_bad @ line_scores) = [line_bad]
   \<and> fs_bad_score ''/b/d/scores.jsonl'' = Some (File (line_bad @ line_scores))
   \<and> length (loaded (load_audio_data demo_lib fs_bad_score ''/b'')) = 1
   \<and> printed_invalid (load_audio_data demo_lib fs_bad_score ''/b'') = 0"
  by code_simp

theorem C6_witness:
  "json_loads demo_lib line_bad = None
   \<and> fs_bad_score ''/b/d/paths.jsonl'' = Some (File line_a)
   \<and> fs_bad_score ''/b/d/scores.jsonl'' = Some (File (line_bad @ line_scores))
   \<and> read_paths_lines demo_lib [line_a, line_bad, line_gone] ([], 0) =
        read_paths_lines demo_lib [line_a, line_gone] ([], 1)
   \<and> read_scores_lines demo_lib [line_a, line_bad, line_gone] [] =
        read_scores_lines demo_lib [line_a, line_gone] []
   \<and> try_subdir demo_lib fs_bad_score ''/b/d/paths.jsonl'' ''/b/d/scores.jsonl'' ([], 0) =
        Done ([\<lparr>filename = ''a.wav'', path = ''/b/d/a.wav'', CE = JNum (Fin 5.5),
                 CU = JNull, PC = JNull, PQ = JNum (Fin 7)\<rparr>], 0)"
proof -
  have h1: "json_loads demo_lib line_bad = None" by code_simp
  have h2: "fs_bad_score ''/b/d/paths.jsonl'' = Some (File line_a)" by code_simp
  have h3: "fs_bad_score ''/b/d/scores.jsonl'' = Some (File (line_bad @ line_scores))"
    by code_simp
  have e: "try_subdir demo_lib fs_bad_score ''/b/d/paths.jsonl'' ''/b/d/scores.jsonl'' ([], 0) =
        Done ([\<lparr>filename = ''a.wav'', path = ''/b/d/a.wav'', CE = JNum (Fin 5.5),
                 CU = JNull, PC = JNull, PQ = JNum (Fin 7)\<rparr>], 0)" by code_simp
  from C6_invalid_line_skipped[where lib = demo_lib and line = line_bad
      and fs = fs_bad_score and paths_file = "''/b/d/paths.jsonl''" and ptext = line_a
      and scores_file = "''/b/d/scores.jsonl''" and stext = "line_bad @ line_scores"
      and pre = "[line_a]" and post = "[line_gone]" and paths_content = "[]" and invalid = 0
      and scores_content = "[]" and d = "[]", OF h1 h2 h3]
  have "read_paths_lines demo_lib ([line_a] @ line_bad # [line_gone]) ([], 0) =
          read_paths_lines demo_lib ([line_a] @ [line_gone]) ([], 0 + 1)"
    and "read_scores_lines demo_lib ([line_a] @ line_bad # [line_gone]) [] =
          read_scores_lines demo_lib ([line_a] @ [line_gone]) []"
    by blast+
  then show ?thesis using h1 h2 h3 e by simp
qed

lemma process_item_mismatch:
  assumes "isdir fs (path_join base item)"
    and "fs (path_join (path_join base item) PATHS_FILENAME) = Some (File ptext)"
    and "fs (path_join (path_join base item) SCORES_FILENAME) = Some (File stext)"
    and "length (valid_lines lib ptext) \<noteq> length (valid_lines lib stext)"
  shows "all_data (process_item lib fs base item st) = all_data st"
  unfolding all_data_process_item
  using assms
    try_subdir_files[where fs = fs and lib = lib and ptext = ptext and stext = stext
      and paths_file = "path_join (path_join base item) PATHS_FILENAME"
      and scores_file = "path_join (path_join base item) SCORES_FILENAME"]
  by simp

subsection \<open>Mismatched valid-line counts\<close>

text \<open>
  Claim C2. When the manifest and the scores file of a subdirectory have different
  numbers of valid lines, processing that subdirectory leaves the list of records as it
  was (no record of the subdirectory is merged), the loop goes on with the
  subdirectories after it, and the records that \<^verbatim>\<open>load_audio_data\<close> returns are exactly
  those of the other subdirectories of the base directory.
\<close>

theorem C2_mismatched_subdirectory_rejected:
  assumes "base \<noteq> []"
    and "fs base = Some (Dir (pre @ item # post))"
    and "isdir fs (path_join base item)"
    and "fs (path_join (path_join base item) PATHS_FILENAME) = Some (File ptext)"
    and "fs (path_join (path_join base item) SCORES_FILENAME) = Some (File stext)"
    and "length (valid_lines lib ptext) \<noteq> length (valid_lines lib stext)"
  shows "all_data (process_item lib fs base item st) = all_data st
       \<and> all_data (load_loop lib fs base (pre @ item # post) st) =
           all_data (load_loop lib fs base (pre @ post) st)
       \<and> loaded (load_audio_data lib fs base) =
           all_data (load_loop lib fs base (pre @ post) load_init)"
proof -
  have zero: "all_data (process_item lib fs base item s) = all_data s" for s
    by (rule process_item_mismatch[OF assms(3-6)])
  have cont: "all_data (load_loop lib fs base (pre @ item # post) s) =
           all_data (load_loop lib fs base (pre @ post) s)" for s
    using zero[of load_init] by (simp add: load_loop_data load_init_def)
  have "loaded (load_audio_data lib fs base) =
          all_data (load_loop lib fs base (pre @ item # post) load_init)"
    using loaded_eq[where fs = fs and base = base] assms(1,2) by simp
  with zero cont show ?thesis by simp
qed

theorem C2_witness:
  "fs_mismatch ''/b'' = Some (Dir ([] @ ''d'' # [''e'']))
   \<and> isdir fs_mismatch ''/b/d''
   \<and> length (valid_lines demo_lib (line_a @ line_gone)) \<noteq> length (valid_lines demo_lib line_scores)
   \<and> is_file fs_mismatch ''/b/d/a.wav''
   \<and> loaded (load_audio_data demo_lib fs_mismatch ''/b'') =
        [\<lparr>filename = ''c.wav'', path = ''/b/e/c.wav'', CE = JNull, CU = JNull,
          PC = JNull, PQ = JNull\<rparr>]"
proof -
  have h1: "''/b'' \<noteq> []" by simp
  have h2: "fs_mismatch ''/b'' = Some (Dir ([] @ ''d'' # [''e'']))" by code_simp
  have h3: "isdir fs_mismatch (path_join ''/b'' ''d'')" by code_simp
  have h4: "fs_mismatch (path_join (path_join ''/b'' ''d'') PATHS_FILENAME) =
              Some (File (line_a @ line_gone))" by code_simp
  have h5: "fs_mismatch (path_join (path_join ''/b'' ''d'') SCORES_FILENAME) =
              Some (File line_scores)" by code_simp
  have h6: "length (valid_lines demo_lib (line_a @ line_gone)) \<noteq>
              length (valid_lines demo_lib line_scores)" by code_simp
  have e: "all_data (load_loop demo_lib fs_mismatch ''/b'' ([] @ [''e'']) load_init) =
        [\<lparr>filename = ''c.wav'', path = ''/b/e/c.wav'', CE = JNull, CU = JNull,
          PC = JNull, PQ = JNull\<rparr>]" by code_simp
  have j: "path_join ''/b'' ''d'' = ''/b/d''" by code_simp
  have f: "is_file fs_mismatch ''/b/d/a.wav''" by code_simp
  from h1 h2 h3 h4 h5 h6
    C2_mismatched_subdirectory_rejected[where lib = demo_lib and fs = fs_mismatch
      and base = "''/b''" and pre = "[]" and item = "''d''" and post = "[''e'']"
      and ptext = "line_a @ line_gone" and stext = line_scores]
  have "loaded (load_audio_data demo_lib fs_mismatch ''/b'') =
          all_data (load_loop demo_lib fs_mismatch ''/b'' ([] @ [''e'']) load_init)"
    by blast
  with e h2 h3 h6 j f show ?thesis by simp
qed

subsection \<open>Records and regular files\<close>









section \<open>Properties of the External Scorer Invoker\<close>

lemma write_file_lookup:
  "write_file fs dir name text = Inr fs' \<Longrightarrow> fs' (path_join dir name) = Some (File text)"
  by (auto simp: write_file_def Let_def split: if_splits)

text \<open>
  Claim C9. When the external command exits with a non-zero status, \<^verbatim>\<open>run_audio_aes\<close>
  returns failure and the file system, the scores file in it, is the one it was given.
  Whenever the function changes the file system at all, the command has exited with
  status zero and the scores file holds the captured standard output.
\<close>

theorem C9_nonzero_exit_writes_nothing:
  "(sp target_dir [audio_aes_command, input_jsonl, ''--batch-size'', str_int batch_size] fs
       = Exited returncode stdout stderr \<and> returncode \<noteq> 0
     \<longrightarrow> \<not> aes_success (run_audio_aes sp fs target_dir audio_aes_command input_jsonl
                          output_jsonl batch_size)
        \<and> aes_fs (run_audio_aes sp fs target_dir audio_aes_command input_jsonl
                          output_jsonl batch_size) = fs)
   \<and> (aes_fs (run_audio_aes sp fs target_dir audio_aes_command input_jsonl
                          output_jsonl batch_size) \<noteq> fs
     \<longrightarrow> (\<exists>out err.
           sp target_dir [audio_aes_command, input_jsonl, ''--batch-size'', str_int batch_size] fs
             = Exited 0 out err
           \<and> aes_fs (run_audio_aes sp fs target_dir audio_aes_command input_jsonl
                          output_jsonl batch_size) (path_join target_dir output_jsonl)
               = Some (File out)))"
proof (intro conjI impI)
  let ?cmd = "[audio_aes_command, input_jsonl, ''--batch-size'', str_int batch_size]"
  let ?r = "run_audio_aes sp fs target_dir audio_aes_command input_jsonl output_jsonl batch_size"
  assume a: "sp target_dir ?cmd fs = Exited returncode stdout stderr \<and> returncode \<noteq> 0"
  then show "\<not> aes_success ?r" by (simp add: run_audio_aes_def Let_def)
  from a show "aes_fs ?r = fs" by (simp add: run_audio_aes_def Let_def)
next
  let ?cmd = "[audio_aes_command, input_jsonl, ''--batch-size'', str_int batch_size]"
  let ?r = "run_audio_aes sp fs target_dir audio_aes_command input_jsonl output_jsonl batch_size"
  assume ch: "aes_fs ?r \<noteq> fs"
  show "\<exists>out err. sp target_dir ?cmd fs = Exited 0 out err
          \<and> aes_fs ?r (path_join target_dir output_jsonl) = Some (File out)"
  proof (cases "sp target_dir ?cmd fs")
    case Not_found
    with ch show ?thesis by (simp add: run_audio_aes_def Let_def split: if_splits)
  next
    case (Exec_error e)
    with ch show ?thesis by (simp add: run_audio_aes_def Let_def split: if_splits)
  next
    case (Exited rc out err)
    show ?thesis
    proof (cases "write_file fs target_dir output_jsonl out")
      case (Inl e)
      with ch Exited show ?thesis by (simp add: run_audio_aes_def Let_def split: if_splits)
    next
      case (Inr fs')
      with ch Exited write_file_lookup[OF Inr] show ?thesis
        by (simp add: run_audio_aes_def Let_def split: if_splits)
    qed
  qed
qed

theorem C9_witness:
  "sp_fails ''/b/d'' [''audio-aes'', ''paths.jsonl'', ''--batch-size'', str_int 100] fs_run
     = Exited 2 (''partial'' @ [NL]) (''boom'' @ [NL])
   \<and> (2 :: int) \<noteq> 0
   \<and> \<not> aes_success (run_audio_aes sp_fails fs_run ''/b/d'' ''audio-aes'' ''paths.jsonl''
                       ''scores.jsonl'' 100)
   \<and> aes_fs (run_audio_aes sp_fails fs_run ''/b/d'' ''audio-aes'' ''paths.jsonl''
                       ''scores.jsonl'' 100) ''/b/d/scores.jsonl'' = None
   \<and> aes_fs (run_audio_aes sp_scores fs_run ''/b/d'' ''audio-aes'' ''paths.jsonl''
                       ''scores.jsonl'' 100) ''/b/d/scores.jsonl'' = Some (File line_scores)"
proof -
  have h: "sp_fails ''/b/d'' [''audio-aes'', ''paths.jsonl'', ''--batch-size'', str_int 100] fs_run
     = Exited 2 (''partial'' @ [NL]) (''boom'' @ [NL]) \<and> (2 :: int) \<noteq> 0"
    by (simp add: sp_fails_def)
  have n: "fs_run ''/b/d/scores.jsonl'' = None" by code_simp
  have w: "aes_fs (run_audio_aes sp_scores fs_run ''/b/d'' ''audio-aes'' ''paths.jsonl''
                       ''scores.jsonl'' 100) ''/b/d/scores.jsonl'' = Some (File line_scores)"
    by code_simp
  from C9_nonzero_exit_writes_nothing[where sp = sp_fails and fs = fs_run
      and target_dir = "''/b/d''" and audio_aes_command = "''audio-aes''"
      and input_jsonl = "''paths.jsonl''" and output_jsonl = "''scores.jsonl''"
      and batch_size = 100 and returncode = 2 and stdout = "''partial'' @ [NL]"
      and stderr = "''boom'' @ [NL]"] h
  have "\<not> aes_success (run_audio_aes sp_fails fs_run ''/b/d'' ''audio-aes'' ''paths.jsonl''
                       ''scores.jsonl'' 100)
      \<and> aes_fs (run_audio_aes sp_fails fs_run ''/b/d'' ''audio-aes'' ''paths.jsonl''
                       ''scores.jsonl'' 100) = fs_run"
    by blast
  with h n w show ?thesis by simp
qed






text \<open>
  The handler for \<^verbatim>\<open>OSError\<close> also serves an error raised while the command is being
  started: the message then begins in the same way as for a failed write, and only the
  text of the error tells the two apart.
\<close>

lemma run_audio_aes_exec_error:
  assumes "path_exists fs (path_join target_dir input_jsonl)"
    and "\<not> file_is_empty fs (path_join target_dir input_jsonl)"
    and "sp target_dir [cmd, input_jsonl, ''--batch-size'', str_int batch_size] fs
           = Exec_error e"
  shows "run_audio_aes sp fs target_dir cmd input_jsonl output_jsonl batch_size =
     \<lparr>aes_success = False,
      aes_msg = ''OSError during command execution or writing output ''
                  @ path_join target_dir output_jsonl @ '': '' @ e,
      aes_fs = fs,
      aes_spawned = [(target_dir, [cmd, input_jsonl, ''--batch-size'', str_int batch_size])]\<rparr>"
  using assms by (simp add: run_audio_aes_def Let_def)

section \<open>Properties of the Batch Orchestrator\<close>


lemma process_subdir_past_skip:
  assumes "overwrite_existing \<or>
      \<not> path_exists (cur_fs st) (path_join (path_join base_dir name) SCORES_FILENAME)"
  shows "process_subdir lib sp base_dir cmd bs overwrite_existing tot (i, name) st =
     (let w = create_wav_jsonl lib (cur_fs st) (path_join base_dir name) PATHS_FILENAME;
          st2 = emit ([Status_starting (i + 1) tot name, Log_header (i + 1) tot name]
                      @ map (\<lambda>(c, t, m). Progress (i + 1) tot name c t m) (wav_progress w)
                      @ [Log_create_paths (wav_msg w)])
                  (st\<lparr>cur_fs := wav_fs w\<rparr>)
      in if wav_count w < 0 then
           emit [Log_paths_error] (st2\<lparr>error_count := error_count st2 + 1\<rparr>)
         else if wav_count w = 0 then
           emit [Log_no_wav] (st2\<lparr>skipped_no_wav_count := skipped_no_wav_count st2 + 1\<rparr>)
         else
           (let r = run_audio_aes sp (wav_fs w) (path_join base_dir name) cmd
                      PATHS_FILENAME SCORES_FILENAME bs;
                st4 = emit ([Log_running cmd, Status_running (i + 1) tot name,
                             Log_command_finished, Log_result (aes_success r)]
                            @ (if aes_msg r \<noteq> [] then [Log_aes_msg (aes_msg r)] else []))
                        (st2\<lparr>cur_fs := aes_fs r, spawned := spawned st2 @ aes_spawned r\<rparr>)
            in if aes_success r
               then st4\<lparr>processed_count := processed_count st4 + 1\<rparr>
               else st4\<lparr>error_count := error_count st4 + 1\<rparr>))"
  using assms by (auto simp: process_subdir_def Let_def emit_def)

lemma process_subdir_skip:
  assumes "\<not> overwrite_existing"
    and "path_exists (cur_fs st) (path_join (path_join base_dir name) SCORES_FILENAME)"
  shows "process_subdir lib sp base_dir cmd bs overwrite_existing tot (i, name) st =
     emit [Status_starting (i + 1) tot name, Log_header (i + 1) tot name, Log_skip_existing]
       (st\<lparr>skipped_existing_count := skipped_existing_count st + 1\<rparr>)"
  using assms by (simp add: process_subdir_def Let_def emit_def)

lemma create_wav_jsonl_written:
  assumes "listdir fs dir = Inr all_files"
    and "\<not> isdir fs (path_join dir out_name)"
  shows "wav_count (create_wav_jsonl lib fs dir out_name) =
           int (length (filter (\<lambda>f. endswith (str_lower f) ''.wav'') all_files))
       \<and> wav_fs (create_wav_jsonl lib fs dir out_name) (path_join dir out_name) =
           Some (File (concat (map (manifest_line lib dir)
                   (filter (\<lambda>f. endswith (str_lower f) ''.wav'') all_files))))"
  using assms by (simp add: create_wav_jsonl_def write_file_def Let_def)

lemma create_wav_jsonl_count_cases:
  "wav_count (create_wav_jsonl lib fs dir out_name) = - 1
     \<and> wav_fs (create_wav_jsonl lib fs dir out_name) = fs
   \<or> (\<exists>all_files. listdir fs dir = Inr all_files \<and> \<not> isdir fs (path_join dir out_name))"
proof (cases "listdir fs dir")
  case (Inl e)
  then show ?thesis by (simp add: create_wav_jsonl_def)
next
  case (Inr all_files)
  then show ?thesis
    by (cases "isdir fs (path_join dir out_name)")
       (simp_all add: create_wav_jsonl_def write_file_def Let_def)
qed

lemma create_wav_jsonl_zero:
  assumes "wav_count (create_wav_jsonl lib fs dir out_name) = 0"
  shows "wav_fs (create_wav_jsonl lib fs dir out_name) (path_join dir out_name) = Some (File [])"
proof -
  from create_wav_jsonl_count_cases[of lib fs dir out_name] assms
  obtain all_files where l: "listdir fs dir = Inr all_files"
    and d: "\<not> isdir fs (path_join dir out_name)" by auto
  from create_wav_jsonl_written[OF l d, of lib] assms show ?thesis by simp
qed

text \<open>
  Claim C8. When the orchestrator reaches the index writer for a subdirectory (the scores
  file is absent or overwriting is on) and the writer reports zero WAV files, the
  iteration for that subdirectory adds one to the counter of subdirectories skipped for
  lack of media, leaves the other three counters as they are, logs the skip as its last
  event, and starts no external command.
\<close>

theorem C8_no_media_never_invokes_command:
  assumes "overwrite_existing \<or>
      \<not> path_exists (cur_fs st) (path_join (path_join base_dir name) SCORES_FILENAME)"
    and "wav_count (create_wav_jsonl lib (cur_fs st) (path_join base_dir name) PATHS_FILENAME) = 0"
  shows "skipped_no_wav_count
           (process_subdir lib sp base_dir cmd bs overwrite_existing tot (i, name) st)
         = skipped_no_wav_count st + 1
       \<and> processed_count
           (process_subdir lib sp base_dir cmd bs overwrite_existing tot (i, name) st)
         = processed_count st
       \<and> error_count
           (process_subdir lib sp base_dir cmd bs overwrite_existing tot (i, name) st)
         = error_count st
       \<and> skipped_existing_count
           (process_subdir lib sp base_dir cmd bs overwrite_existing tot (i, name) st)
         = skipped_existing_count st
       \<and> spawned (process_subdir lib sp base_dir cmd bs overwrite_existing tot (i, name) st)
         = spawned st
       \<and> last (events (process_subdir lib sp base_dir cmd bs overwrite_existing tot (i, name) st))
         = Log_no_wav"
  unfolding process_subdir_past_skip[OF assms(1)]
  using assms(2) by (simp add: Let_def emit_def)

theorem C8_witness:
  "\<not> path_exists fs_two (path_join (path_join ''/b'' ''B'') SCORES_FILENAME)
   \<and> listdir fs_two ''/b/B'' = Inr [''notes.txt'', ''paths.jsonl'']
   \<and> wav_count (create_wav_jsonl demo_lib fs_two (path_join ''/b'' ''B'') PATHS_FILENAME) = 0
   \<and> skipped_no_wav_count
        (process_subdir demo_lib sp_scores ''/b'' ''audio-aes'' 100 False 2 (1, ''B'')
           (init_pstate fs_two)) = 1
   \<and> spawned
        (process_subdir demo_lib sp_scores ''/b'' ''audio-aes'' 100 False 2 (1, ''B'')
           (init_pstate fs_two)) = []
   \<and> spawned (perform_preprocessing demo_lib sp_scores fs_two ''/b'' ''audio-aes'' 100 False)
        = [(''/b/A'', [''audio-aes'', ''paths.jsonl'', ''--batch-size'', ''100''])]
   \<and> sum_skipped_no_wav
        (summary_of None 2
           (perform_preprocessing demo_lib sp_scores fs_two ''/b'' ''audio-aes'' 100 False)) = 1
   \<and> sum_processed
        (summary_of None 2
           (perform_preprocessing demo_lib sp_scores fs_two ''/b'' ''audio-aes'' 100 False)) = 1"
proof -
  have h1: "False \<or> \<not> path_exists (cur_fs (init_pstate fs_two))
                (path_join (path_join ''/b'' ''B'') SCORES_FILENAME)"
    by code_simp
  have h2: "wav_count (create_wav_jsonl demo_lib (cur_fs (init_pstate fs_two))
                (path_join ''/b'' ''B'') PATHS_FILENAME) = 0"
    by code_simp
  have c: "cur_fs (init_pstate fs_two) = fs_two"
    "skipped_no_wav_count (init_pstate fs_two) = 0" "spawned (init_pstate fs_two) = []"
    by (simp_all add: init_pstate_def)
  have l: "listdir fs_two ''/b/B'' = Inr [''notes.txt'', ''paths.jsonl'']" by code_simp
  have r: "spawned (perform_preprocessing demo_lib sp_scores fs_two ''/b'' ''audio-aes'' 100 False)
        = [(''/b/A'', [''audio-aes'', ''paths.jsonl'', ''--batch-size'', ''100''])]
    \<and> sum_skipped_no_wav
        (summary_of None 2
           (perform_preprocessing demo_lib sp_scores fs_two ''/b'' ''audio-aes'' 100 False)) = 1
    \<and> sum_processed
        (summary_of None 2
           (perform_preprocessing demo_lib sp_scores fs_two ''/b'' ''audio-aes'' 100 False)) = 1"
    by code_simp
  from C8_no_media_never_invokes_command[where st = "init_pstate fs_two" and lib = demo_lib
      and overwrite_existing = False and base_dir = "''/b''" and name = "''B''"
      and sp = sp_scores and cmd = "''audio-aes''" and bs = 100 and tot = 2 and i = 1,
      OF h1 h2]
  have "skipped_no_wav_count
        (process_subdir demo_lib sp_scores ''/b'' ''audio-aes'' 100 False 2 (1, ''B'')
           (init_pstate fs_two)) = skipped_no_wav_count (init_pstate fs_two) + 1
    \<and> spawned
        (process_subdir demo_lib sp_scores ''/b'' ''audio-aes'' 100 False 2 (1, ''B'')
           (init_pstate fs_two)) = spawned (init_pstate fs_two)"
    by blast
  with h1 h2 c l r show ?thesis by simp
qed

text \<open>
  Claim C10. Whenever the iteration for a subdirectory ends as skipped for lack of media,
  the manifest of that subdirectory is an empty regular file afterwards, whatever it held
  before. More generally, once the iteration is past the skip-existing check and the
  writer can list the subdirectory and open the manifest, the manifest holds exactly the
  lines written for the WAV files found, and nothing of its former content.
\<close>

theorem C10_no_media_manifest_truncated:
  "(skipped_no_wav_count
       (process_subdir lib sp base_dir cmd bs overwrite_existing tot (i, name) st)
      = skipped_no_wav_count st + 1
    \<longrightarrow> cur_fs (process_subdir lib sp base_dir cmd bs overwrite_existing tot (i, name) st)
          (path_join (path_join base_dir name) PATHS_FILENAME) = Some (File []))
   \<and> ((overwrite_existing \<or>
         \<not> path_exists (cur_fs st) (path_join (path_join base_dir name) SCORES_FILENAME))
        \<and> listdir (cur_fs st) (path_join base_dir name) = Inr all_files
        \<and> \<not> isdir (cur_fs st) (path_join (path_join base_dir name) PATHS_FILENAME)
      \<longrightarrow> wav_fs (create_wav_jsonl lib (cur_fs st) (path_join base_dir name) PATHS_FILENAME)
            (path_join (path_join base_dir name) PATHS_FILENAME)
          = Some (File (concat (map (manifest_line lib (path_join base_dir name))
                    (filter (\<lambda>f. endswith (str_lower f) ''.wav'') all_files)))))"
proof (intro conjI impI)
  let ?st' = "process_subdir lib sp base_dir cmd bs overwrite_existing tot (i, name) st"
  let ?dir = "path_join base_dir name"
  let ?w = "create_wav_jsonl lib (cur_fs st) ?dir PATHS_FILENAME"
  assume inc: "skipped_no_wav_count ?st' = skipped_no_wav_count st + 1"
  show "cur_fs ?st' (path_join ?dir PATHS_FILENAME) = Some (File [])"
  proof (cases "overwrite_existing \<or>
      \<not> path_exists (cur_fs st) (path_join ?dir SCORES_FILENAME)")
    case False
    then have "skipped_no_wav_count ?st' = skipped_no_wav_count st"
      by (simp add: process_subdir_skip emit_def)
    with inc show ?thesis by simp
  next
    case True
    note ps = process_subdir_past_skip[OF True, of lib sp cmd bs tot i]
    show ?thesis
    proof (cases "wav_count ?w = 0")
      case True
      then show ?thesis unfolding ps
        using create_wav_jsonl_zero[OF True] by (simp add: Let_def emit_def)
    next
      case False
      then have "skipped_no_wav_count ?st' = skipped_no_wav_count st"
        unfolding ps by (simp add: Let_def emit_def)
      with inc show ?thesis by simp
    qed
  qed
next
  let ?dir = "path_join base_dir name"
  assume "(overwrite_existing \<or>
         \<not> path_exists (cur_fs st) (path_join ?dir SCORES_FILENAME))
        \<and> listdir (cur_fs st) ?dir = Inr all_files
        \<and> \<not> isdir (cur_fs st) (path_join ?dir PATHS_FILENAME)"
  then have l: "listdir (cur_fs st) ?dir = Inr all_files"
    and d: "\<not> isdir (cur_fs st) (path_join ?dir PATHS_FILENAME)" by simp_all
  from create_wav_jsonl_written[OF l d, of lib]
  show "wav_fs (create_wav_jsonl lib (cur_fs st) ?dir PATHS_FILENAME)
            (path_join ?dir PATHS_FILENAME)
          = Some (File (concat (map (manifest_line lib ?dir)
                    (filter (\<lambda>f. endswith (str_lower f) ''.wav'') all_files))))"
    by simp
qed

theorem C10_witness:
  "fs_two ''/b/B/paths.jsonl'' = Some (File line_a)
   \<and> listdir fs_two (path_join ''/b'' ''B'') = Inr [''notes.txt'', ''paths.jsonl'']
   \<and> skipped_no_wav_count
        (process_subdir demo_lib sp_scores ''/b'' ''audio-aes'' 100 False 2 (1, ''B'')
           (init_pstate fs_two)) = 1
   \<and> cur_fs (process_subdir demo_lib sp_scores ''/b'' ''audio-aes'' 100 False 2 (1, ''B'')
           (init_pstate fs_two)) ''/b/B/paths.jsonl'' = Some (File [])
   \<and> cur_fs (perform_preprocessing demo_lib sp_scores fs_two ''/b'' ''audio-aes'' 100 False)
        ''/b/B/paths.jsonl'' = Some (File [])"
proof -
  let ?st = "init_pstate fs_two"
  let ?st' = "process_subdir demo_lib sp_scores ''/b'' ''audio-aes'' 100 False 2 (1, ''B'') ?st"
  have a: "fs_two ''/b/B/paths.jsonl'' = Some (File line_a)" by code_simp
  have h1: "skipped_no_wav_count ?st' = skipped_no_wav_count ?st + 1" by code_simp
  have h2: "(False \<or> \<not> path_exists (cur_fs ?st)
                (path_join (path_join ''/b'' ''B'') SCORES_FILENAME))
        \<and> listdir (cur_fs ?st) (path_join ''/b'' ''B'') = Inr [''notes.txt'', ''paths.jsonl'']
        \<and> \<not> isdir (cur_fs ?st) (path_join (path_join ''/b'' ''B'') PATHS_FILENAME)"
    by code_simp
  have p: "path_join (path_join ''/b'' ''B'') PATHS_FILENAME = ''/b/B/paths.jsonl''"
    by code_simp
  have c: "cur_fs ?st = fs_two" "skipped_no_wav_count ?st = 0"
    by (simp_all add: init_pstate_def)
  have r: "cur_fs (perform_preprocessing demo_lib sp_scores fs_two ''/b'' ''audio-aes'' 100 False)
        ''/b/B/paths.jsonl'' = Some (File [])" by code_simp
  from C10_no_media_manifest_truncated[where st = ?st and lib = demo_lib and sp = sp_scores
      and base_dir = "''/b''" and cmd = "''audio-aes''" and bs = 100
      and overwrite_existing = False and tot = 2 and i = 1 and name = "''B''"
      and all_files = "[''notes.txt'', ''paths.jsonl'']"] h1 h2
  have "cur_fs ?st' (path_join (path_join ''/b'' ''B'') PATHS_FILENAME) = Some (File [])"
    by blast
  with a h1 h2 p c r show ?thesis by simp
qed

lemma emit_events [simp]: "events (emit es st) = events st @ es"
  by (simp add: emit_def)

lemma extends_quietly_iff:
  "extends_quietly st st' \<longleftrightarrow>
     (\<exists>es. events st' = events st @ es \<and> (\<forall>e\<in>set es. \<not> is_summary_event e))"
  by (auto simp: extends_quietly_def prefix_def list_all_iff)

lemma extends_quietly_refl: "events st' = events st \<Longrightarrow> extends_quietly st st'"
  by (simp add: extends_quietly_iff)

lemma extends_quietly_trans:
  "extends_quietly st st' \<Longrightarrow> extends_quietly st' st'' \<Longrightarrow> extends_quietly st st''"
  by (auto simp: extends_quietly_iff)

lemma extends_quietly_emit:
  "extends_quietly st st' \<Longrightarrow> \<forall>e\<in>set es. \<not> is_summary_event e \<Longrightarrow>
   events st'' = events st' @ es \<Longrightarrow> extends_quietly st st''"
  by (auto simp: extends_quietly_iff)

lemma process_subdir_quiet:
  "extends_quietly st (process_subdir lib sp base_dir cmd bs ow tot ix st)"
proof -
  obtain i name where ix: "ix = (i, name)" by (cases ix)
  show ?thesis
  proof (cases "ow \<or> \<not> path_exists (cur_fs st) (path_join (path_join base_dir name) SCORES_FILENAME)")
    case False
    then show ?thesis unfolding ix
      by (simp add: process_subdir_skip extends_quietly_iff)
  next
    case True
    show ?thesis unfolding ix process_subdir_past_skip[OF True]
      by (auto simp: Let_def extends_quietly_iff)
  qed
qed

lemma preprocess_loop_quiet:
  "extends_quietly st (preprocess_loop lib sp base_dir cmd bs ow tot ixs st)"
proof (induction ixs arbitrary: st)
  case Nil
  show ?case by (simp add: extends_quietly_refl)
next
  case (Cons ix ixs)
  show ?case
    using extends_quietly_trans[OF process_subdir_quiet Cons.IH] by simp
qed


lemma is_set_events [simp]: "events (snd (is_set stop st)) = events st"
  by (simp add: is_set_def)

lemma report_progress_quiet:
  "extends_quietly st (report_progress stop i tot name ps st)"
proof (induction ps arbitrary: st)
  case Nil
  show ?case by (simp add: extends_quietly_refl)
next
  case (Cons p ps)
  let ?sb = "snd (is_set stop st)"
  let ?next = "if fst (is_set stop st) then ?sb
               else emit [Progress i tot name (fst p) (fst (snd p)) (snd (snd p))] ?sb"
  have "extends_quietly st ?next" by (simp add: extends_quietly_iff)
  from extends_quietly_trans[OF this Cons.IH[of ?next]]
  show ?case by (simp add: Let_def split_beta)
qed

lemma run_command_v1_1_quiet:
  "extends_quietly st
     (snd (run_command_v1_1 run stop cmd bs tot i name dir st))"
  by (simp add: run_command_v1_1_def Let_def split_beta is_set_def extends_quietly_iff emit_def)

lemma write_paths_v1_1_quiet:
  "extends_quietly st
     (snd (write_paths_v1_1 lib run stop cmd bs tot i name dir st))"
proof -
  let ?w = "create_wav_jsonl lib (cur_fs st) dir PATHS_FILENAME"
  let ?st2 = "emit [Log_create_paths (wav_msg ?w)]
                (report_progress stop (i + 1) tot name (wav_progress ?w)
                   (st\<lparr>cur_fs := wav_fs ?w\<rparr>))"
  have "extends_quietly st (st\<lparr>cur_fs := wav_fs ?w\<rparr>)" by (simp add: extends_quietly_refl)
  from extends_quietly_trans[OF this report_progress_quiet]
  have q2: "extends_quietly st ?st2"
    by (rule extends_quietly_emit) simp_all
  let ?R = "snd (write_paths_v1_1 lib run stop cmd bs tot i name dir st)"
  show ?thesis
  proof (cases "wav_count ?w < 0")
    case True
    then have "extends_quietly ?st2 ?R"
      by (simp add: write_paths_v1_1_def Let_def split_beta is_set_def extends_quietly_iff)
    with q2 show ?thesis by (rule extends_quietly_trans)
  next
    case False
    show ?thesis
    proof (cases "wav_count ?w = 0")
      case True
      then have "extends_quietly ?st2 ?R"
        by (simp add: write_paths_v1_1_def Let_def split_beta is_set_def extends_quietly_iff)
      with q2 show ?thesis by (rule extends_quietly_trans)
    next
      case nz: False
      from extends_quietly_trans[OF q2 run_command_v1_1_quiet]
      show ?thesis using False nz by (simp add: write_paths_v1_1_def Let_def)
    qed
  qed
qed

lemma process_subdir_v1_1_quiet:
  "extends_quietly st
     (snd (process_subdir_v1_1 lib run stop base_dir cmd bs ow tot ix st))"
proof -
  let ?sa = "snd (is_set stop st)"
  let ?sb = "emit [Status_starting (fst ix + 1) tot (snd ix),
                    Log_header (fst ix + 1) tot (snd ix)] ?sa"
  let ?sc = "snd (is_set stop ?sb)"
  have q1: "extends_quietly st ?sc" by (simp add: extends_quietly_iff)
  show ?thesis
  proof (cases "fst (is_set stop st)")
    case True
    then show ?thesis
      by (simp add: process_subdir_v1_1_def Let_def split_beta extends_quietly_iff)
  next
    case h0: False
    show ?thesis
    proof (cases "\<not> ow \<and> path_exists (cur_fs ?sb)
        (path_join (path_join base_dir (snd ix)) SCORES_FILENAME)")
      case True
      then show ?thesis using h0
        by (auto simp: process_subdir_v1_1_def Let_def split_beta extends_quietly_iff)
    next
      case ns: False
      show ?thesis
      proof (cases "fst (is_set stop ?sb)")
        case True
        then show ?thesis using h0 ns
          by (auto simp: process_subdir_v1_1_def Let_def split_beta extends_quietly_iff)
      next
        case False
        have w: "extends_quietly st
            (snd (write_paths_v1_1 lib run stop cmd bs tot (fst ix) (snd ix)
                    (path_join base_dir (snd ix)) ?sc))"
          by (rule extends_quietly_trans[OF q1 write_paths_v1_1_quiet])
        show ?thesis using h0 ns False w
          by (auto simp: process_subdir_v1_1_def Let_def split_beta)
      qed
    qed
  qed
qed

lemma preprocess_loop_v1_1_quiet:
  "extends_quietly st (preprocess_loop_v1_1 lib run stop base_dir cmd bs ow tot ixs st)"
proof (induction ixs arbitrary: st)
  case Nil
  show ?case by (simp add: extends_quietly_refl)
next
  case (Cons ix ixs)
  let ?r = "process_subdir_v1_1 lib run stop base_dir cmd bs ow tot ix st"
  show ?case
  proof (cases "fst ?r")
    case True
    then show ?thesis using process_subdir_v1_1_quiet[of st lib run stop base_dir cmd bs ow tot ix]
      by (simp add: split_beta)
  next
    case False
    then show ?thesis
      using extends_quietly_trans[OF process_subdir_v1_1_quiet Cons.IH, of st lib run stop base_dir cmd bs ow tot ix]
      by (simp add: split_beta)
  qed
qed

lemma perform_preprocessing_summary:
  assumes "listdir fs base_dir = Inr listing" and "find_subdirs fs base_dir listing \<noteq> []"
  shows "\<exists>pre s. events (perform_preprocessing lib sp fs base_dir cmd bs ow)
             = pre @ [Status_summary s, Log_summary s, Dialog_complete s]
           \<and> (\<forall>e\<in>set pre. \<not> is_summary_event e)
           \<and> s = summary_of None (length (find_subdirs fs base_dir listing))
                   (perform_preprocessing lib sp fs base_dir cmd bs ow)"
proof -
  let ?n = "length (find_subdirs fs base_dir listing)"
  let ?start = "emit [Log_found ?n] (init_pstate fs)"
  let ?st = "preprocess_loop lib sp base_dir cmd bs ow ?n
               (enumerate 0 (find_subdirs fs base_dir listing)) ?start"
  let ?s = "summary_of None ?n ?st"
  have r: "perform_preprocessing lib sp fs base_dir cmd bs ow
             = emit [Status_summary ?s, Log_summary ?s, Dialog_complete ?s] ?st"
    using assms by (simp add: perform_preprocessing_def Let_def)
  have "extends_quietly (init_pstate fs) ?start"
    by (simp add: extends_quietly_iff)
  moreover have "extends_quietly ?start ?st" by (rule preprocess_loop_quiet)
  ultimately have "extends_quietly (init_pstate fs) ?st" by (rule extends_quietly_trans)
  then have q: "\<forall>e\<in>set (events ?st). \<not> is_summary_event e"
    by (auto simp: extends_quietly_iff init_pstate_def)
  have s: "summary_of None ?n (emit [Status_summary ?s, Log_summary ?s, Dialog_complete ?s] ?st)
             = ?s"
    by (simp add: summary_of_def emit_def)
  show ?thesis
    unfolding r s using q by (intro exI[of _ "events ?st"] exI[of _ ?s]) simp
qed

lemma perform_preprocessing_v1_1_summary:
  assumes "listdir fs base_dir = Inr listing" and "find_subdirs fs base_dir listing \<noteq> []"
  shows "\<exists>pre s. events (perform_preprocessing_v1_1 lib run stop fs base_dir cmd bs ow)
             = pre @ [Status_summary s, Log_summary s, Dialog_complete s]
           \<and> (\<forall>e\<in>set pre. \<not> is_summary_event e)
           \<and> (sum_job_status s = Some ''Completed normally''
                \<or> sum_job_status s = Some ''Halted by user request'')
           \<and> s = summary_of (sum_job_status s) (length (find_subdirs fs base_dir listing))
                   (perform_preprocessing_v1_1 lib run stop fs base_dir cmd bs ow)"
proof -
  let ?n = "length (find_subdirs fs base_dir listing)"
  let ?start = "emit [Log_found ?n] (init_pstate_v1_1 fs)"
  let ?st = "preprocess_loop_v1_1 lib run stop base_dir cmd bs ow ?n
               (enumerate 0 (find_subdirs fs base_dir listing)) ?start"
  let ?st' = "snd (is_set stop ?st)"
  let ?status = "Some (if \<not> fst (is_set stop ?st) then ''Completed normally''
                       else ''Halted by user request'')"
  let ?s = "summary_of ?status ?n ?st'"
  have r: "perform_preprocessing_v1_1 lib run stop fs base_dir cmd bs ow
             = emit [Status_summary ?s, Log_summary ?s, Dialog_complete ?s] ?st'"
    using assms by (simp add: perform_preprocessing_v1_1_def Let_def split_beta)
  have "extends_quietly (init_pstate_v1_1 fs) ?start"
    by (simp add: extends_quietly_iff)
  moreover have "extends_quietly ?start ?st" by (rule preprocess_loop_v1_1_quiet)
  ultimately have "extends_quietly (init_pstate_v1_1 fs) ?st" by (rule extends_quietly_trans)
  then have q: "\<forall>e\<in>set (events ?st'). \<not> is_summary_event e"
    by (auto simp: extends_quietly_iff init_pstate_v1_1_def)
  have j: "sum_job_status ?s = ?status" by (simp add: summary_of_def)
  have s: "summary_of ?status ?n
             (emit [Status_summary ?s, Log_summary ?s, Dialog_complete ?s] ?st') = ?s"
    by (simp add: summary_of_def emit_def)
  show ?thesis
    unfolding r
    apply (intro exI[of _ "events ?st'"] exI[of _ ?s])
    using q j s by simp
qed

text \<open>
  Claim C3, as the code has it. A run that finds at least one subdirectory produces the
  final summary exactly once, as its last three outputs (status bar, log, completion
  dialog), with the five counters of the run; in revision 1.1 this holds for every
  behaviour of the stop event, and the summary carries the completion state. A run that
  finds no subdirectory, or cannot list the base directory, ends with a diagnostic and
  produces no summary. The current revision has no cancellation and its summary has no
  completion state; the elapsed time is not modelled.
\<close>

theorem C3_summary_once_when_subdirectories_found:
  "(listdir fs base_dir = Inr listing \<and> find_subdirs fs base_dir listing \<noteq> []
     \<longrightarrow> (\<exists>pre s. events (perform_preprocessing lib sp fs base_dir cmd bs ow)
                 = pre @ [Status_summary s, Log_summary s, Dialog_complete s]
               \<and> (\<forall>e\<in>set pre. \<not> is_summary_event e)
               \<and> s = summary_of None (length (find_subdirs fs base_dir listing))
                       (perform_preprocessing lib sp fs base_dir cmd bs ow))
       \<and> (\<exists>pre s. events (perform_preprocessing_v1_1 lib run stop fs base_dir cmd bs ow)
                 = pre @ [Status_summary s, Log_summary s, Dialog_complete s]
               \<and> (\<forall>e\<in>set pre. \<not> is_summary_event e)
               \<and> (sum_job_status s = Some ''Completed normally''
                    \<or> sum_job_status s = Some ''Halted by user request'')
               \<and> s = summary_of (sum_job_status s) (length (find_subdirs fs base_dir listing))
                       (perform_preprocessing_v1_1 lib run stop fs base_dir cmd bs ow)))
   \<and> (listdir fs base_dir = Inr listing \<and> find_subdirs fs base_dir listing = []
     \<longrightarrow> events (perform_preprocessing lib sp fs base_dir cmd bs ow)
           = [Log_no_subdirs, Status_no_subdirs]
       \<and> events (perform_preprocessing_v1_1 lib run stop fs base_dir cmd bs ow)
           = [Log_no_subdirs, Status_no_subdirs])
   \<and> (listdir fs base_dir = Inl err
     \<longrightarrow> events (perform_preprocessing lib sp fs base_dir cmd bs ow)
           = [Log_fatal_listing err, Status_listing_failed, Dialog_listing_error err]
       \<and> events (perform_preprocessing_v1_1 lib run stop fs base_dir cmd bs ow)
           = [Log_fatal_listing err, Status_listing_failed, Dialog_listing_error err])"
proof (intro conjI impI)
  assume a: "listdir fs base_dir = Inr listing \<and> find_subdirs fs base_dir listing \<noteq> []"
  then have l: "listdir fs base_dir = Inr listing"
    and n: "find_subdirs fs base_dir listing \<noteq> []" by simp_all
  show "\<exists>pre s. events (perform_preprocessing lib sp fs base_dir cmd bs ow)
                 = pre @ [Status_summary s, Log_summary s, Dialog_complete s]
               \<and> (\<forall>e\<in>set pre. \<not> is_summary_event e)
               \<and> s = summary_of None (length (find_subdirs fs base_dir listing))
                       (perform_preprocessing lib sp fs base_dir cmd bs ow)"
    by (rule perform_preprocessing_summary[OF l n])
  show "\<exists>pre s. events (perform_preprocessing_v1_1 lib run stop fs base_dir cmd bs ow)
                 = pre @ [Status_summary s, Log_summary s, Dialog_complete s]
               \<and> (\<forall>e\<in>set pre. \<not> is_summary_event e)
               \<and> (sum_job_status s = Some ''Completed normally''
                    \<or> sum_job_status s = Some ''Halted by user request'')
               \<and> s = summary_of (sum_job_status s) (length (find_subdirs fs base_dir listing))
                       (perform_preprocessing_v1_1 lib run stop fs base_dir cmd bs ow)"
    by (rule perform_preprocessing_v1_1_summary[OF l n])
next
  assume a: "listdir fs base_dir = Inr listing \<and> find_subdirs fs base_dir listing = []"
  then show "events (perform_preprocessing lib sp fs base_dir cmd bs ow)
           = [Log_no_subdirs, Status_no_subdirs]"
    by (simp add: perform_preprocessing_def init_pstate_def)
  from a show "events (perform_preprocessing_v1_1 lib run stop fs base_dir cmd bs ow)
           = [Log_no_subdirs, Status_no_subdirs]"
    by (simp add: perform_preprocessing_v1_1_def init_pstate_v1_1_def)
next
  assume a: "listdir fs base_dir = Inl err"
  then show "events (perform_preprocessing lib sp fs base_dir cmd bs ow)
           = [Log_fatal_listing err, Status_listing_failed, Dialog_listing_error err]"
    by (simp add: perform_preprocessing_def init_pstate_def)
  from a show "events (perform_preprocessing_v1_1 lib run stop fs base_dir cmd bs ow)
           = [Log_fatal_listing err, Status_listing_failed, Dialog_listing_error err]"
    by (simp add: perform_preprocessing_v1_1_def init_pstate_v1_1_def)
qed

text \<open>
  Claim C3 says that every invocation produces the summary. The base directory of
  \<open>fs_flat\<close> can be listed and holds no subdirectory: both revisions log that no
  subdirectory was found, set the status bar and return, and no summary event is among
  their outputs.
\<close>

theorem C3_counterexample:
  "isdir fs_flat ''/b''
   \<and> events (perform_preprocessing demo_lib sp_scores fs_flat ''/b'' ''audio-aes'' 100 False)
       = [Log_no_subdirs, Status_no_subdirs]
   \<and> events (perform_preprocessing_v1_1 demo_lib (run_audio_aes sp_scores) (\<lambda>n. False)
               fs_flat ''/b'' ''audio-aes'' 100 False)
       = [Log_no_subdirs, Status_no_subdirs]
   \<and> filter is_summary_event
        (events (perform_preprocessing demo_lib sp_scores fs_flat ''/b'' ''audio-aes'' 100 False))
       = []"
  by code_simp


theorem C3_witness:
  "listdir fs_two ''/b'' = Inr [''B'', ''A'']
   \<and> find_subdirs fs_two ''/b'' [''B'', ''A''] = [''A'', ''B'']
   \<and> (\<exists>pre s. events (perform_preprocessing demo_lib sp_scores fs_two ''/b'' ''audio-aes''
                        100 False)
          = pre @ [Status_summary s, Log_summary s, Dialog_complete s]
        \<and> (\<forall>e\<in>set pre. \<not> is_summary_event e))
   \<and> (\<exists>pre s. events (perform_preprocessing_v1_1 demo_lib (run_audio_aes sp_scores)
                        (\<lambda>n. 3 \<le> n) fs_two ''/b'' ''audio-aes'' 100 False)
          = pre @ [Status_summary s, Log_summary s, Dialog_complete s]
        \<and> (\<forall>e\<in>set pre. \<not> is_summary_event e))
   \<and> last (events (perform_preprocessing_v1_1 demo_lib (run_audio_aes sp_scores)
                        (\<lambda>n. 3 \<le> n) fs_two ''/b'' ''audio-aes'' 100 False))
       = Dialog_complete
           \<lparr>sum_job_status = Some ''Halted by user request'', sum_total_dirs = 2,
            sum_processed = 0, sum_errors = 0, sum_skipped_no_wav = 0,
            sum_skipped_existing = 0\<rparr>
   \<and> listdir fs_flat ''/b'' = Inr [''readme.txt'']
   \<and> find_subdirs fs_flat ''/b'' [''readme.txt''] = []
   \<and> events (perform_preprocessing demo_lib sp_scores fs_flat ''/b'' ''audio-aes'' 100 False)
       = [Log_no_subdirs, Status_no_subdirs]
   \<and> listdir fs_flat ''/nowhere''
       = Inl (''[Errno 2] No such file or directory: '' @ [quote] @ ''/nowhere'' @ [quote])
   \<and> length (events (perform_preprocessing demo_lib sp_scores fs_flat ''/nowhere''
                        ''audio-aes'' 100 False)) = 3"
proof -
  have a: "listdir fs_two ''/b'' = Inr [''B'', ''A'']
      \<and> find_subdirs fs_two ''/b'' [''B'', ''A''] \<noteq> []" by code_simp
  have a': "find_subdirs fs_two ''/b'' [''B'', ''A''] = [''A'', ''B'']" by code_simp
  have b: "listdir fs_flat ''/b'' = Inr [''readme.txt'']
      \<and> find_subdirs fs_flat ''/b'' [''readme.txt''] = []" by code_simp
  have c: "listdir fs_flat ''/nowhere''
       = Inl (''[Errno 2] No such file or directory: '' @ [quote] @ ''/nowhere'' @ [quote])"
    by code_simp
  have h: "last (events (perform_preprocessing_v1_1 demo_lib (run_audio_aes sp_scores)
                        (\<lambda>n. 3 \<le> n) fs_two ''/b'' ''audio-aes'' 100 False))
       = Dialog_complete
           \<lparr>sum_job_status = Some ''Halted by user request'', sum_total_dirs = 2,
            sum_processed = 0, sum_errors = 0, sum_skipped_no_wav = 0,
            sum_skipped_existing = 0\<rparr>" by code_simp
  have t1: "(\<exists>pre s. events (perform_preprocessing demo_lib sp_scores fs_two ''/b'' ''audio-aes''
                        100 False)
          = pre @ [Status_summary s, Log_summary s, Dialog_complete s]
        \<and> (\<forall>e\<in>set pre. \<not> is_summary_event e))
      \<and> (\<exists>pre s. events (perform_preprocessing_v1_1 demo_lib (run_audio_aes sp_scores)
                        (\<lambda>n. 3 \<le> n) fs_two ''/b'' ''audio-aes'' 100 False)
          = pre @ [Status_summary s, Log_summary s, Dialog_complete s]
        \<and> (\<forall>e\<in>set pre. \<not> is_summary_event e))"
    using C3_summary_once_when_subdirectories_found[where fs = fs_two and base_dir = "''/b''"
        and listing = "[''B'', ''A'']" and lib = demo_lib and sp = sp_scores
        and run = "run_audio_aes sp_scores" and stop = "\<lambda>n. 3 \<le> n"
        and cmd = "''audio-aes''" and bs = 100 and ow = False] a
    by blast
  have t2: "events (perform_preprocessing demo_lib sp_scores fs_flat ''/b'' ''audio-aes'' 100 False)
       = [Log_no_subdirs, Status_no_subdirs]"
    using C3_summary_once_when_subdirectories_found[where fs = fs_flat and base_dir = "''/b''"
        and listing = "[''readme.txt'']" and lib = demo_lib and sp = sp_scores
        and cmd = "''audio-aes''" and bs = 100 and ow = False] b
    by blast
  have t3: "events (perform_preprocessing demo_lib sp_scores fs_flat ''/nowhere''
                        ''audio-aes'' 100 False)
       = [Log_fatal_listing (''[Errno 2] No such file or directory: '' @ [quote]
                               @ ''/nowhere'' @ [quote]),
          Status_listing_failed,
          Dialog_listing_error (''[Errno 2] No such file or directory: '' @ [quote]
                               @ ''/nowhere'' @ [quote])]"
    using C3_summary_once_when_subdirectories_found[where fs = fs_flat
        and base_dir = "''/nowhere''" and lib = demo_lib and sp = sp_scores
        and cmd = "''audio-aes''" and bs = 100 and ow = False
        and err = "''[Errno 2] No such file or directory: '' @ [quote] @ ''/nowhere'' @ [quote]"] c
    by blast
  from a a' b c h t1 t2 show ?thesis unfolding t3 by simp
qed

section \<open>Properties of the application object\<close>

lemma thread_inv_init: "thread_inv init_app_v1_1"
  by (simp add: thread_inv_def init_app_v1_1_def)

lemma thread_inv_not_alive:
  assumes "thread_inv a" and "\<not> thread_is_alive a"
  shows "alive a = []"
proof (cases "alive a")
  case Nil
  then show ?thesis .
next
  case (Cons w ws)
  with assms(1) have "preprocessing_thread a = Some (fst w)" by (simp add: thread_inv_def)
  with Cons assms(2) show ?thesis by (simp add: thread_is_alive_def)
qed

lemma thread_inv_step:
  assumes "thread_inv a"
  shows "thread_inv (app_step_v1_1 act a)"
proof (cases act)
  case (Browse d)
  with assms show ?thesis by (simp add: browse_directory_def thread_inv_def)
next
  case (Request_start fs dialog)
  show ?thesis
  proof (cases "thread_is_alive a")
    case True
    with assms Request_start show ?thesis
      by (simp add: run_preprocessing_thread_v1_1_def thread_inv_def Let_def)
  next
    case False
    from thread_inv_not_alive[OF assms False] have e: "alive a = []" .
    show ?thesis
    proof (cases dialog)
      case Dialog_cancelled
      with assms Request_start show ?thesis
        by (simp add: run_preprocessing_thread_v1_1_def thread_inv_def Let_def)
    next
      case (Dialog_ok c b ov)
      with e Request_start False show ?thesis
        by (simp add: run_preprocessing_thread_v1_1_def thread_inv_def Let_def start_thread_def)
    qed
  qed
next
  case (Worker_returns t)
  show ?thesis
  proof (cases "t \<in> fst ` set (alive a)")
    case False
    with assms Worker_returns show ?thesis by (simp add: worker_returns_v1_1_def)
  next
    case True
    then obtain w where w: "alive a = [w]" "fst w = t"
      using assms by (cases "alive a") (auto simp: thread_inv_def)
    with Worker_returns show ?thesis
      by (simp add: worker_returns_v1_1_def thread_inv_def)
  qed
qed

lemma thread_inv_run:
  "thread_inv a \<Longrightarrow> thread_inv (run_actions_v1_1 acts a)"
  unfolding run_actions_v1_1_def
  by (induction acts arbitrary: a) (simp_all add: thread_inv_step)


text \<open>
  Claim C4, as the code has it. In revision 1.1 a request to start the orchestrator while
  the referenced worker thread is alive is answered with the warning that preprocessing
  is busy, and nothing else changes; after any sequence of requests, directory changes
  and worker returns, at most one worker is running. The current revision keeps no
  reference to the worker and makes no such check: every request confirmed in the dialog
  starts another worker, beside those already running, and shows no warning.
\<close>

theorem C4_single_run_guard_in_revision_1_1:
  "(selected_directory a \<noteq> [] \<and> isdir fs (selected_directory a) \<and> thread_is_alive a
      \<longrightarrow> run_preprocessing_thread_v1_1 fs dialog a
            = a\<lparr>ui := ui a @ [Warning_preprocessing_busy]\<rparr>)
   \<and> length (alive (run_actions_v1_1 acts init_app_v1_1)) \<le> 1
   \<and> (selected_directory b \<noteq> [] \<and> isdir fs (selected_directory b)
      \<longrightarrow> alive (run_preprocessing_thread fs (Dialog_ok cmd bs ov) b)
            = alive b @ [(started b,
                \<lparr>job_base_dir = selected_directory b, job_cmd = cmd, job_batch_size = bs,
                 job_overwrite = ov\<rparr>)]
          \<and> Warning_preprocessing_busy
              \<notin> set (drop (length (ui b))
                       (ui (run_preprocessing_thread fs (Dialog_ok cmd bs ov) b))))"
proof (intro conjI impI)
  assume "selected_directory a \<noteq> [] \<and> isdir fs (selected_directory a) \<and> thread_is_alive a"
  then show "run_preprocessing_thread_v1_1 fs dialog a
            = a\<lparr>ui := ui a @ [Warning_preprocessing_busy]\<rparr>"
    by (simp add: run_preprocessing_thread_v1_1_def Let_def)
next
  have "thread_inv (run_actions_v1_1 acts init_app_v1_1)"
    by (rule thread_inv_run[OF thread_inv_init])
  then show "length (alive (run_actions_v1_1 acts init_app_v1_1)) \<le> 1"
    by (simp add: thread_inv_def)
next
  assume d: "selected_directory b \<noteq> [] \<and> isdir fs (selected_directory b)"
  then show "alive (run_preprocessing_thread fs (Dialog_ok cmd bs ov) b)
            = alive b @ [(started b,
                \<lparr>job_base_dir = selected_directory b, job_cmd = cmd, job_batch_size = bs,
                 job_overwrite = ov\<rparr>)]"
    by (simp add: run_preprocessing_thread_def Let_def start_thread_def)
  from d show "Warning_preprocessing_busy
              \<notin> set (drop (length (ui b))
                       (ui (run_preprocessing_thread fs (Dialog_ok cmd bs ov) b)))"
    by (simp add: run_preprocessing_thread_def Let_def start_thread_def)
qed

text \<open>
  Claim C4 fails on the current revision: after a directory is chosen, two requests
  confirmed one after the other leave two workers running, and no warning is shown.
\<close>

theorem C4_counterexample:
  "map fst (alive (run_actions two_requests init_app)) = [0, 1]
   \<and> map snd (alive (run_actions two_requests init_app)) = [demo_job, demo_job]
   \<and> Warning_preprocessing_busy \<notin> set (ui (run_actions two_requests init_app))"
  by code_simp

theorem C4_witness:
  "thread_is_alive (run_actions_v1_1 (butlast two_requests) init_app_v1_1)
   \<and> run_actions_v1_1 two_requests init_app_v1_1
       = (run_actions_v1_1 (butlast two_requests) init_app_v1_1)
           \<lparr>ui := ui (run_actions_v1_1 (butlast two_requests) init_app_v1_1)
                    @ [Warning_preprocessing_busy]\<rparr>
   \<and> map fst (alive (run_actions_v1_1 two_requests init_app_v1_1)) = [0]
   \<and> length (alive (run_actions_v1_1 two_requests init_app_v1_1)) \<le> 1
   \<and> map fst (alive (run_preprocessing_thread fs_two (Dialog_ok ''audio-aes'' 100 False)
                        (run_actions (butlast two_requests) init_app))) = [0, 1]"
proof -
  let ?a = "run_actions_v1_1 (butlast two_requests) init_app_v1_1"
  let ?b = "run_actions (butlast two_requests) init_app"
  have ha: "selected_directory ?a \<noteq> [] \<and> isdir fs_two (selected_directory ?a)
              \<and> thread_is_alive ?a" by code_simp
  have hb: "selected_directory ?b \<noteq> [] \<and> isdir fs_two (selected_directory ?b)" by code_simp
  have s: "run_actions_v1_1 two_requests init_app_v1_1
             = run_preprocessing_thread_v1_1 fs_two (Dialog_ok ''audio-aes'' 100 False) ?a"
    by (simp add: two_requests_def run_actions_v1_1_def)
  have v: "map fst (alive (run_actions_v1_1 two_requests init_app_v1_1)) = [0]"
    "map fst (alive ?b) = [0]" "started ?b = 1" by code_simp+
  note t = C4_single_run_guard_in_revision_1_1[where a = ?a and fs = fs_two
      and dialog = "Dialog_ok ''audio-aes'' 100 False" and acts = two_requests and b = ?b
      and cmd = "''audio-aes''" and bs = 100 and ov = False]
  from t ha have 1: "run_preprocessing_thread_v1_1 fs_two (Dialog_ok ''audio-aes'' 100 False) ?a
            = ?a\<lparr>ui := ui ?a @ [Warning_preprocessing_busy]\<rparr>" by blast
  from t have 2: "length (alive (run_actions_v1_1 two_requests init_app_v1_1)) \<le> 1" by blast
  from t hb have 3: "alive (run_preprocessing_thread fs_two (Dialog_ok ''audio-aes'' 100 False) ?b)
            = alive ?b @ [(started ?b,
                \<lparr>job_base_dir = selected_directory ?b, job_cmd = ''audio-aes'',
                 job_batch_size = 100, job_overwrite = False\<rparr>)]" by blast
  have 4: "map fst (alive (run_preprocessing_thread fs_two (Dialog_ok ''audio-aes'' 100 False) ?b))
             = [0, 1]"
    unfolding 3 using v by simp
  from ha 1 2 4 v(1) show ?thesis unfolding s by simp
qed

section \<open>Properties of the Filter/Sort Engine\<close>



lemma list_sort_length [simp]: "length (list_sort f r xs) = length xs"
  by (simp add: list_sort_def)

lemma list_sort_Nil_iff [simp]: "list_sort f r xs = [] \<longleftrightarrow> xs = []"
  using list_sort_length[of f r xs] by (metis length_0_conv)












end
